theory Spec2Isabelle
  imports Complex_Main "HOL-Library.Multiset"
begin

section \<open>Data model\<close>

text \<open>
  Wall-clock instants and durations are seconds, as \<open>time.time()\<close> and
  \<open>time.sleep\<close> count them. Sensor values are reals: every finite float is a real, and
  the comparisons of the source are exact on floats. A float infinity behaves under these
  comparisons like a real beyond every threshold, so it adds no behaviour of its own.
\<close>

type_synonym time = real

text \<open>
  A cell of a record returned by \<open>get_all_records()\<close>: text, or a number where the
  sheet's text was numeric.
\<close>

datatype cell = CStr string | CNum real

text \<open>One record of \<open>get_all_records()\<close>: a dict from column header to cell.\<close>

type_synonym row = "(string \<times> cell) list"

text \<open>
  One row of the data frame \<open>load_sensor_data\<close> builds: the eleven columns of
  \<open>required_cols\<close>, \<open>None\<close> standing for NaN, NaT and \<open>None\<close>, and the cells of
  every other column of the sheet, which the source carries along untouched.
\<close>

record reading =
  timestamp :: "time option"
  temp_c :: "real option"
  humidity_pct :: "real option"
  co2_ppm :: "real option"
  pir_state :: "cell option"
  voc :: "real option"
  pm25_ugm3 :: "real option"
  ch2o_ppm :: "real option"
  occupancy_count :: "real option"
  light_lux :: "real option"
  sound_dBA :: "real option"
  extra :: "(string \<times> cell) list"

type_synonym frame = "reading list"

datatype py_error = AttributeError

section \<open>DataCache\<close>

text \<open>
  \<open>self.cache\<close> maps a worksheet name to \<open>{'data': df, 'timestamp': time}\<close>. The lock
  serialises the methods; \<open>is_refreshing\<close> and \<open>last_refresh_time\<close> are never read.
\<close>

record cache_item =
  item_data :: frame
  item_timestamp :: time

record DataCache =
  cache :: "string \<rightharpoonup> cache_item"
  ttl :: real

text \<open>\<open>DataCache.get\<close>; \<open>now\<close> is the value \<open>time.time()\<close> returns inside it.\<close>

definition DataCache_get :: "DataCache \<Rightarrow> string \<Rightarrow> time \<Rightarrow> frame option \<times> DataCache" where
  "DataCache_get self key now =
     (case cache self key of
        None \<Rightarrow> (None, self)
      | Some cached_item \<Rightarrow>
          (let age = now - item_timestamp cached_item
           in if age < ttl self then (Some (item_data cached_item), self)
              else (None, self\<lparr>cache := (cache self)(key := None)\<rparr>)))"

definition DataCache_set :: "DataCache \<Rightarrow> string \<Rightarrow> frame \<Rightarrow> time \<Rightarrow> DataCache" where
  "DataCache_set self key df now =
     self\<lparr>cache := (cache self)(key \<mapsto> \<lparr>item_data = df, item_timestamp = now\<rparr>)\<rparr>"

definition DataCache_is_expired :: "DataCache \<Rightarrow> string \<Rightarrow> time \<Rightarrow> bool" where
  "DataCache_is_expired self key now =
     (case cache self key of
        None \<Rightarrow> True
      | Some cached_item \<Rightarrow> now - item_timestamp cached_item \<ge> ttl self)"

definition DataCache_clear :: "DataCache \<Rightarrow> DataCache" where
  "DataCache_clear self = self\<lparr>cache := Map.empty\<rparr>"

section \<open>Comfort score\<close>

text \<open>
  \<open>calculate_comfort_score\<close>: \<open>scores\<close> is the dict of sub-scores, here the list of its
  values in insertion order; \<open>pd.notna\<close> is the test for \<open>Some\<close>. The sub-scores are
  Python ints, and \<open>sum(...) / len(...)\<close> is true division: the quotient of the
  integer sum by the count, which the model keeps exact where the float is its rounding.
\<close>

definition calculate_comfort_score :: "reading \<Rightarrow> real" where
  "calculate_comfort_score row =
     (let scores =
        (case temp_c row of None \<Rightarrow> []
         | Some temp \<Rightarrow>
             [if 20 \<le> temp \<and> temp \<le> 25 then 100
              else if (18 \<le> temp \<and> temp < 20) \<or> (25 < temp \<and> temp \<le> 27) then 50
              else (0::int)]) @
        (case humidity_pct row of None \<Rightarrow> []
         | Some hum \<Rightarrow>
             [if 40 \<le> hum \<and> hum \<le> 50 then 100
              else if (30 \<le> hum \<and> hum < 40) \<or> (50 < hum \<and> hum \<le> 60) then 50
              else 0]) @
        (case co2_ppm row of None \<Rightarrow> []
         | Some co2 \<Rightarrow>
             [if co2 \<le> 600 then 100
              else if co2 \<le> 1000 then 75
              else if co2 \<le> 2000 then 25
              else 0]) @
        (case voc row of None \<Rightarrow> []
         | Some v \<Rightarrow>
             [if v \<le> 300 then 100 else if v \<le> 500 then 50 else 0]) @
        (case pm25_ugm3 row of None \<Rightarrow> []
         | Some pm25 \<Rightarrow>
             [if pm25 \<le> 12 then 100 else if pm25 \<le> 35 then 50 else 0])
      in if scores = [] then 0
         else real_of_int (sum_list scores) / real (length scores))"

text \<open>
  The comfort score as the specification words it: the five metrics, the table of
  sub-scores, the mean over the metrics that have a value.
\<close>

datatype metric = Temperature | Humidity | CO2 | VOC | PM25

fun metric_value :: "reading \<Rightarrow> metric \<Rightarrow> real option" where
  "metric_value r Temperature = temp_c r"
| "metric_value r Humidity = humidity_pct r"
| "metric_value r CO2 = co2_ppm r"
| "metric_value r VOC = voc r"
| "metric_value r PM25 = pm25_ugm3 r"

fun sub_score :: "metric \<Rightarrow> real \<Rightarrow> int" where
  "sub_score Temperature v =
     (if 20 \<le> v \<and> v \<le> 25 then 100 else if 18 \<le> v \<and> v \<le> 27 then 50 else 0)"
| "sub_score Humidity v =
     (if 40 \<le> v \<and> v \<le> 50 then 100 else if 30 \<le> v \<and> v \<le> 60 then 50 else 0)"
| "sub_score CO2 v =
     (if v > 2000 then 0 else if v \<le> 600 then 100 else if v \<le> 1000 then 75 else 25)"
| "sub_score VOC v = (if v \<le> 300 then 100 else if v \<le> 500 then 50 else 0)"
| "sub_score PM25 v = (if v \<le> 12 then 100 else if v \<le> 35 then 50 else 0)"

definition present_scores :: "reading \<Rightarrow> int list" where
  "present_scores r =
     concat (map (\<lambda>m. case metric_value r m of None \<Rightarrow> [] | Some v \<Rightarrow> [sub_score m v])
                 [Temperature, Humidity, CO2, VOC, PM25])"

definition comfortScore_spec :: "reading \<Rightarrow> real" where
  "comfortScore_spec r =
     (if present_scores r = [] then 0
      else real_of_int (sum_list (present_scores r)) / real (length (present_scores r)))"

section \<open>Strings\<close>

text \<open>
  A character is a code point below 256. \<open>str.strip()\<close> removes the whitespace at
  both ends; the whitespace characters in that range are tab, line feed, vertical tab,
  form feed, carriage return, the four separators 0x1C to 0x1F, the space, the next-line
  control 0x85 and the no-break space 0xA0. \<open>str.title()\<close> upper-cases the first letter of
  every run of letters and lower-cases the others. \<open>s.replace(' ', '')\<close> deletes the
  spaces.
\<close>

definition isspace :: "char \<Rightarrow> bool" where
  "isspace c = (List.member
     [CHR 0x09, CHR 0x0A, CHR 0x0B, CHR 0x0C, CHR 0x0D, CHR 0x1C, CHR 0x1D, CHR 0x1E,
      CHR 0x1F, CHR '' '', CHR 0x85, CHR 0xA0] c)"

definition strip :: "string \<Rightarrow> string" where
  "strip s = rev (dropWhile isspace (rev (dropWhile isspace s)))"

definition isupper :: "char \<Rightarrow> bool" where
  "isupper c = (65 \<le> (of_char c :: nat) \<and> (of_char c :: nat) \<le> 90)"

definition islower :: "char \<Rightarrow> bool" where
  "islower c = (97 \<le> (of_char c :: nat) \<and> (of_char c :: nat) \<le> 122)"

definition upper :: "char \<Rightarrow> char" where
  "upper c = (if islower c then char_of ((of_char c :: nat) - 32) else c)"

definition lower :: "char \<Rightarrow> char" where
  "lower c = (if isupper c then char_of ((of_char c :: nat) + 32) else c)"

fun title_from :: "bool \<Rightarrow> string \<Rightarrow> string" where
  "title_from previous_is_cased [] = []"
| "title_from previous_is_cased (c # cs) =
     (if isupper c \<or> islower c
      then (if previous_is_cased then lower c else upper c) # title_from True cs
      else c # title_from False cs)"

definition title :: "string \<Rightarrow> string" where
  "title s = title_from False s"

definition replace_spaces :: "string \<Rightarrow> string" where
  "replace_spaces s = filter (\<lambda>c. c \<noteq> CHR '' '') s"

section \<open>The pandas calls\<close>

text \<open>
  The library functions the source calls are parameters of the model:
  \<^item> \<open>str_to_numeric\<close> is what \<open>pd.to_numeric(..., errors='coerce')\<close> makes of a text
    cell (\<open>None\<close> is NaN); a numeric cell is its own value;
  \<^item> \<open>to_datetime\<close> is \<open>pd.to_datetime(..., errors='coerce')\<close> on a whole column
    (\<open>None\<close> is NaT), since the format it parses with may depend on the column;
  \<^item> \<open>argsort\<close> is the sort \<open>sort_values\<close> runs on the keys that are not NaT. The
    source passes no \<open>kind\<close>, so this is the default, \<open>'quicksort'\<close>, of which the
    library promises an ascending order and nothing about ties.
\<close>

record pandas =
  str_to_numeric :: "string \<Rightarrow> real option"
  to_datetime :: "cell option list \<Rightarrow> time option list"
  argsort :: "time list \<Rightarrow> nat list"

definition to_numeric :: "pandas \<Rightarrow> cell option \<Rightarrow> real option" where
  "to_numeric lib c =
     (case c of None \<Rightarrow> None
      | Some (CNum x) \<Rightarrow> Some x
      | Some (CStr s) \<Rightarrow> str_to_numeric lib s)"

text \<open>
  What the library promises of \<open>argsort\<close> on one list of keys: the indices it returns are
  a permutation of the positions, and the keys read in that order ascend.
\<close>

definition argsort_sorts :: "(time list \<Rightarrow> nat list) \<Rightarrow> time list \<Rightarrow> bool" where
  "argsort_sorts f ks =
     (mset (f ks) = mset [0..<length ks] \<and> sorted (map (\<lambda>i. ks ! i) (f ks)))"

text \<open>
  \<open>nargsort\<close>, the index computation of \<open>sort_values(by=...)\<close> with the defaults
  \<open>ascending=True\<close>, \<open>na_position='last'\<close>: the positions of the keys that are not NaT,
  in the order \<open>argsort\<close> gives them, then the positions of the NaT keys as they stand.
\<close>

definition nargsort :: "(time list \<Rightarrow> nat list) \<Rightarrow> time option list \<Rightarrow> nat list" where
  "nargsort f items =
     (let idx = [0..<length items];
          non_nan_idx = filter (\<lambda>i. items ! i \<noteq> None) idx;
          nan_idx = filter (\<lambda>i. items ! i = None) idx;
          non_nans = map (\<lambda>i. the (items ! i)) non_nan_idx
      in map (\<lambda>j. non_nan_idx ! j) (f non_nans) @ nan_idx)"

definition sort_values :: "(time list \<Rightarrow> nat list) \<Rightarrow> frame \<Rightarrow> frame" where
  "sort_values f df = map (\<lambda>i. df ! i) (nargsort f (map timestamp df))"

section \<open>Normalisation\<close>

definition required_cols :: "string list" where
  "required_cols =
     [''timestamp'', ''temp_c'', ''humidity_pct'', ''co2_ppm'', ''pir_state'', ''voc'',
      ''pm25_ugm3'', ''ch2o_ppm'', ''occupancy_count'', ''light_lux'', ''sound_dBA'']"

text \<open>
  \<open>pd.DataFrame(data)\<close> has the union of the records' keys as columns, and is
  \<open>empty\<close> when it has no row or no column.
\<close>

definition columns :: "row list \<Rightarrow> string list" where
  "columns data = remdups (concat (map (map fst) data))"

definition df_empty :: "row list \<Rightarrow> bool" where
  "df_empty data = (data = [] \<or> columns data = [])"

text \<open>
  One row of the frame after the steps "ensure all required columns exist" and "convert
  sensor columns to numeric": a column the record lacks reads \<open>None\<close>.
\<close>

definition to_reading :: "pandas \<Rightarrow> row \<Rightarrow> time option \<Rightarrow> reading" where
  "to_reading lib r ts =
     \<lparr>timestamp = ts,
      temp_c = to_numeric lib (map_of r ''temp_c''),
      humidity_pct = to_numeric lib (map_of r ''humidity_pct''),
      co2_ppm = to_numeric lib (map_of r ''co2_ppm''),
      pir_state = map_of r ''pir_state'',
      voc = to_numeric lib (map_of r ''voc''),
      pm25_ugm3 = to_numeric lib (map_of r ''pm25_ugm3''),
      ch2o_ppm = to_numeric lib (map_of r ''ch2o_ppm''),
      occupancy_count = to_numeric lib (map_of r ''occupancy_count''),
      light_lux = to_numeric lib (map_of r ''light_lux''),
      sound_dBA = to_numeric lib (map_of r ''sound_dBA''),
      extra = filter (\<lambda>kv. \<not> List.member required_cols (fst kv)) r\<rparr>"

text \<open>The frame before the sort: lines 239 to 250 of \<open>load_sensor_data\<close>.\<close>

definition typed_frame :: "pandas \<Rightarrow> row list \<Rightarrow> frame" where
  "typed_frame lib data =
     map2 (to_reading lib) data (to_datetime lib (map (\<lambda>r. map_of r ''timestamp'') data))"

text \<open>Steps 4 of \<open>load_sensor_data\<close>, to the sorted frame of line 253.\<close>

definition normalize :: "pandas \<Rightarrow> row list \<Rightarrow> frame" where
  "normalize lib data = sort_values (argsort lib) (typed_frame lib data)"

section \<open>The remote sheet, the clock and the process state\<close>

text \<open>
  One attempt on the sheet, \<open>spreadsheet.worksheet(name).get_all_records()\<close>, ends in
  records, in \<open>WorksheetNotFound\<close>, or in another exception. The sheet is a function of
  the worksheet name and of the number of requests made of it so far, so that it may
  answer every attempt differently.
\<close>

datatype response = Records "row list" | WorksheetNotFound | APIError

type_synonym sheet = "string \<Rightarrow> nat \<Rightarrow> response"

text \<open>
  The state the functions below read and change: the global cache, the clock
  \<open>time.time()\<close> reads, and three logs that only record what was done: the durations
  passed to \<open>time.sleep\<close>, the worksheet names asked of the sheet, and the number of
  dummy frames drawn so far. Inside one call the clock moves by the sleeps only; the
  properties below hold for every clock value a call starts with.
\<close>

record world =
  data_cache :: DataCache
  clock :: time
  slept :: "real list"
  requests :: "string list"
  dummy_frames :: nat

definition time_sleep :: "real \<Rightarrow> world \<Rightarrow> world" where
  "time_sleep d w = w\<lparr>clock := clock w + d, slept := slept w @ [d]\<rparr>"

text \<open>The random draws of one row of \<open>create_dummy_data\<close>.\<close>

record draw =
  normal_temp :: real
  normal_humidity :: real
  normal_co2 :: real
  choice_occupied :: bool
  normal_voc :: real
  normal_pm25 :: real
  normal_ch2o :: real
  randint_occupancy :: nat
  normal_light :: real
  normal_sound :: real

text \<open>One line of \<open>clients.csv\<close>; pandas reads a column of numbers as numbers.\<close>

record booth_config =
  location :: cell
  booth :: cell

text \<open>
  What the module holds fixed while it runs: the connection \<open>spreadsheet\<close> (\<open>None\<close>
  when connecting failed), the library, the random source (by frame drawn and row), and
  the roster \<open>df_clients\<close>.
\<close>

record env =
  spreadsheet :: "sheet option"
  pd :: pandas
  np_random :: "nat \<Rightarrow> nat \<Rightarrow> draw"
  df_clients :: "booth_config list"

section \<open>fetch_worksheet_with_retry\<close>

text \<open>
  The \<open>for attempt in range(max_retries)\<close> loop from \<open>attempt\<close> on. The sleep is
  guarded by \<open>attempt < max_retries - 1\<close>; after the last attempt the loop ends and the
  function returns \<open>None\<close>.
\<close>

function retry_loop :: "sheet \<Rightarrow> string \<Rightarrow> nat \<Rightarrow> nat \<Rightarrow> world \<Rightarrow> row list option \<times> world" where
  "retry_loop sp worksheet_name max_retries attempt w =
     (if attempt < max_retries then
        (let w1 = w\<lparr>requests := requests w @ [worksheet_name]\<rparr> in
         case sp worksheet_name (length (requests w)) of
           Records data \<Rightarrow> (if data \<noteq> [] then Some data else None, w1)
         | WorksheetNotFound \<Rightarrow> (None, w1)
         | APIError \<Rightarrow>
             (let wait_time = 2 ^ attempt in
              if attempt < max_retries - 1
              then retry_loop sp worksheet_name max_retries (attempt + 1)
                     (time_sleep wait_time w1)
              else retry_loop sp worksheet_name max_retries (attempt + 1) w1))
      else (None, w))"
  by pat_completeness auto
termination
  by (relation "measure (\<lambda>(sp, worksheet_name, max_retries, attempt, w). max_retries - attempt)")
     auto

declare retry_loop.simps [simp del]

definition fetch_worksheet_with_retry ::
  "env \<Rightarrow> string \<Rightarrow> nat \<Rightarrow> world \<Rightarrow> row list option \<times> world" where
  "fetch_worksheet_with_retry e worksheet_name max_retries w =
     (case spreadsheet e of
        None \<Rightarrow> (None, w)
      | Some sp \<Rightarrow> retry_loop sp worksheet_name max_retries 0 w)"

section \<open>create_dummy_data and load_sensor_data\<close>

text \<open>
  \<open>create_dummy_data\<close>: 24 hourly rows ending now (\<open>pd.date_range(end=now, periods=24,
  freq='H')\<close>), every value drawn at random; \<open>randint(0, 5)\<close> draws from 0 to 4.
\<close>

definition create_dummy_data :: "time \<Rightarrow> (nat \<Rightarrow> draw) \<Rightarrow> frame" where
  "create_dummy_data now rnd =
     map (\<lambda>i. \<lparr>timestamp = Some (now - real (23 - i) * 3600),
               temp_c = Some (normal_temp (rnd i)),
               humidity_pct = Some (normal_humidity (rnd i)),
               co2_ppm = Some (normal_co2 (rnd i)),
               pir_state = Some (CStr (if choice_occupied (rnd i) then ''Occupied'' else ''Vacant'')),
               voc = Some (normal_voc (rnd i)),
               pm25_ugm3 = Some (normal_pm25 (rnd i)),
               ch2o_ppm = Some (normal_ch2o (rnd i)),
               occupancy_count = Some (real (randint_occupancy (rnd i) mod 5)),
               light_lux = Some (normal_light (rnd i)),
               sound_dBA = Some (normal_sound (rnd i)),
               extra = []\<rparr>)
         [0..<24]"

text \<open>
  \<open>loc_name.replace(' ', '')\<close> is a method of \<open>str\<close>: on a number it raises
  \<open>AttributeError\<close>.
\<close>

definition str_replace :: "cell \<Rightarrow> py_error + string" where
  "str_replace c = (case c of CStr s \<Rightarrow> Inr (replace_spaces s) | CNum x \<Rightarrow> Inl AttributeError)"

definition cache_key :: "cell \<Rightarrow> cell \<Rightarrow> py_error + string" where
  "cache_key loc_name booth_name =
     (case str_replace loc_name of
        Inl err \<Rightarrow> Inl err
      | Inr l \<Rightarrow>
          (case str_replace booth_name of
             Inl err \<Rightarrow> Inl err
           | Inr b \<Rightarrow> Inr (l @ ''_'' @ b)))"

definition load_sensor_data ::
  "env \<Rightarrow> cell \<Rightarrow> cell \<Rightarrow> world \<Rightarrow> py_error + (frame option \<times> world)" where
  "load_sensor_data e loc_name booth_name w =
     (case cache_key loc_name booth_name of
        Inl err \<Rightarrow> Inl err
      | Inr key \<Rightarrow>
          (case DataCache_get (data_cache w) key (clock w) of
             (Some cached_data, c1) \<Rightarrow> Inr (Some cached_data, w\<lparr>data_cache := c1\<rparr>)
           | (None, c1) \<Rightarrow>
               (let w1 = w\<lparr>data_cache := c1\<rparr> in
                case spreadsheet e of
                  None \<Rightarrow>
                    Inr (Some (create_dummy_data (clock w1) (np_random e (dummy_frames w1))),
                         w1\<lparr>dummy_frames := dummy_frames w1 + 1\<rparr>)
                | Some sp \<Rightarrow>
                    (case fetch_worksheet_with_retry e key 3 w1 of
                       (None, w2) \<Rightarrow> Inr (None, w2)
                     | (Some data, w2) \<Rightarrow>
                         if \<not> df_empty data
                         then (let df = normalize (pd e) data
                               in Inr (Some df,
                                       w2\<lparr>data_cache :=
                                            DataCache_set (data_cache w2) key df (clock w2)\<rparr>))
                         else Inr (None, w2)))))"

section \<open>The background refresh\<close>

text \<open>
  \<open>refresh_all_booths\<close>: the \<open>try\<close> encloses the whole \<open>for\<close> loop, so an exception
  out of \<open>load_sensor_data\<close> is caught after the loop has been left. The result lists
  the roster lines \<open>load_sensor_data\<close> was called with, and the exception caught, if any.
\<close>

fun refresh_loop ::
  "env \<Rightarrow> booth_config list \<Rightarrow> world \<Rightarrow> booth_config list \<times> py_error option \<times> world" where
  "refresh_loop e [] w = ([], None, w)"
| "refresh_loop e (row # rest) w =
     (case load_sensor_data e (location row) (booth row) w of
        Inl err \<Rightarrow> ([row], Some err, w)
      | Inr (df, w1) \<Rightarrow>
          (case refresh_loop e rest (time_sleep (1/2) w1) of
             (called, caught, w2) \<Rightarrow> (row # called, caught, w2)))"

definition refresh_all_booths ::
  "env \<Rightarrow> world \<Rightarrow> booth_config list \<times> py_error option \<times> world" where
  "refresh_all_booths e w = refresh_loop e (df_clients e) w"

text \<open>
  Whether \<open>load_sensor_data\<close> raises on a roster line: it does where building the
  cache key does.
\<close>

definition load_raises :: "booth_config \<Rightarrow> bool" where
  "load_raises row =
     (case cache_key (location row) (booth row) of Inl err \<Rightarrow> True | Inr key \<Rightarrow> False)"

section \<open>Temporal utilisation\<close>

text \<open>
  \<open>astype(str).str.strip() == 'Occupied'\<close>: the text of a number is made of digits,
  sign, point and exponent (or is \<open>inf\<close> or \<open>nan\<close>), never \<open>Occupied\<close>.
\<close>

definition is_occupied :: "cell \<Rightarrow> bool" where
  "is_occupied c = (case c of CStr s \<Rightarrow> strip s = ''Occupied'' | CNum x \<Rightarrow> False)"

definition dropna_pir_state :: "frame \<Rightarrow> frame" where
  "dropna_pir_state df = filter (\<lambda>r. pir_state r \<noteq> None) df"

definition occupied_rows :: "frame \<Rightarrow> frame" where
  "occupied_rows df =
     filter (\<lambda>r. case pir_state r of None \<Rightarrow> False | Some c \<Rightarrow> is_occupied c) df"

text \<open>
  The date filter of \<open>dashboard\<close> (line 523); a comparison with NaT is false. \<open>start\<close>
  and \<open>stop\<close> are the two instants the handler computes from the request.
\<close>

definition dashboard_filter :: "time \<Rightarrow> time \<Rightarrow> frame \<Rightarrow> frame" where
  "dashboard_filter start stop df =
     filter (\<lambda>r. case timestamp r of None \<Rightarrow> False | Some t \<Rightarrow> start \<le> t \<and> t \<le> stop) df"

text \<open>Lines 524 to 534 of \<open>dashboard\<close>, on the filtered frame.\<close>

definition dashboard_temporal_utilization :: "frame \<Rightarrow> real" where
  "dashboard_temporal_utilization filtered_df =
     (if filtered_df = [] then 0
      else
        (let temp_util_df = dropna_pir_state filtered_df in
         if temp_util_df \<noteq> [] then
           (let occupied_count = length (occupied_rows temp_util_df);
                total_count = length temp_util_df
            in if total_count > 0 then real occupied_count / real total_count * 100 else 0)
         else 0))"

text \<open>
  Lines 657 to 675 of \<open>location_view\<close>: each date bound filters only when the request
  gives it; \<open>None\<close> when the booth adds nothing to \<open>utilization_data\<close>.
\<close>

definition location_view_utilization :: "time option \<Rightarrow> time option \<Rightarrow> frame \<Rightarrow> real option" where
  "location_view_utilization start stop df_booth =
     (let f1 = (case start of None \<Rightarrow> df_booth
                | Some s \<Rightarrow>
                    filter (\<lambda>r. case timestamp r of None \<Rightarrow> False | Some t \<Rightarrow> s \<le> t) df_booth);
          f2 = (case stop of None \<Rightarrow> f1
                | Some e \<Rightarrow>
                    filter (\<lambda>r. case timestamp r of None \<Rightarrow> False | Some t \<Rightarrow> t < e) f1);
          filtered_df = dropna_pir_state f2
      in if filtered_df \<noteq> [] then
           (let occupied_count = length (occupied_rows filtered_df);
                total_count = length filtered_df
            in Some (if total_count > 0 then real occupied_count / real total_count * 100 else 0))
         else None)"

text \<open>
  The occupancy test of the status panel (line 446 of \<open>dashboard\<close>), which normalises
  the case: \<open>str(...).strip().title() == 'Occupied'\<close>.
\<close>

definition is_occupied_title :: "cell \<Rightarrow> bool" where
  "is_occupied_title c = (case c of CStr s \<Rightarrow> title (strip s) = ''Occupied'' | CNum x \<Rightarrow> False)"

text \<open>
  Temporal utilisation as the specification words it: of the readings in range that have
  a \<open>pir_state\<close>, the percentage whose trimmed and case-normalised state is
  \<open>Occupied\<close>; 0 when there is none.
\<close>

definition temporalUtilization_spec :: "time \<Rightarrow> time \<Rightarrow> frame \<Rightarrow> real" where
  "temporalUtilization_spec start stop series =
     (let considered = dropna_pir_state (dashboard_filter start stop series);
          occupied =
            filter (\<lambda>r. case pir_state r of None \<Rightarrow> False | Some c \<Rightarrow> is_occupied_title c)
              considered
      in if considered = [] then 0
         else real (length occupied) / real (length considered) * 100)"

section \<open>Concrete inputs\<close>

text \<open>A reading with no field present, the base of the concrete readings below.\<close>

definition no_fields :: reading where
  "no_fields =
     \<lparr>timestamp = None, temp_c = None, humidity_pct = None, co2_ppm = None,
      pir_state = None, voc = None, pm25_ugm3 = None, ch2o_ppm = None,
      occupancy_count = None, light_lux = None, sound_dBA = None, extra = []\<rparr>"

definition example_cache :: DataCache where
  "example_cache =
     \<lparr>cache = [''Adelaide_BoothA'' \<mapsto> \<lparr>item_data = [no_fields], item_timestamp = 1000\<rparr>],
      ttl = 120\<rparr>"

definition four_readings :: frame where
  "four_readings =
     [no_fields\<lparr>timestamp := Some 10, pir_state := Some (CStr ''Occupied'')\<rparr>,
      no_fields\<lparr>timestamp := Some 20, pir_state := Some (CStr ''occupied '')\<rparr>,
      no_fields\<lparr>timestamp := Some 30, pir_state := Some (CStr ''Vacant'')\<rparr>,
      no_fields\<lparr>timestamp := Some 40, pir_state := Some (CStr ''Vacant'')\<rparr>]"

text \<open>
  A library for the concrete runs: no text parses as a number, a timestamp cell that holds
  a number is that instant, and the sort is the stable insertion sort.
\<close>

definition stable_argsort :: "time list \<Rightarrow> nat list" where
  "stable_argsort ks = sort_key (\<lambda>i. ks ! i) [0..<length ks]"

definition lib0 :: pandas where
  "lib0 =
     \<lparr>str_to_numeric = (\<lambda>s. None),
      to_datetime = map (\<lambda>c. case c of Some (CNum x) \<Rightarrow> Some x | _ \<Rightarrow> None),
      argsort = stable_argsort\<rparr>"

definition draw0 :: draw where
  "draw0 =
     \<lparr>normal_temp = 22, normal_humidity = 45, normal_co2 = 800, choice_occupied = False,
      normal_voc = 200, normal_pm25 = 15, normal_ch2o = 1 / 20, randint_occupancy = 2,
      normal_light = 400, normal_sound = 45\<rparr>"

definition env0 :: "sheet option \<Rightarrow> booth_config list \<Rightarrow> env" where
  "env0 sp roster = \<lparr>spreadsheet = sp, pd = lib0, np_random = (\<lambda>n i. draw0), df_clients = roster\<rparr>"

definition world0 :: world where
  "world0 =
     \<lparr>data_cache = \<lparr>cache = Map.empty, ttl = 120\<rparr>, clock = 1000, slept = [], requests = [],
      dummy_frames = 0\<rparr>"

definition world_stale :: world where
  "world_stale = world0\<lparr>data_cache := example_cache, clock := 2000\<rparr>"

definition one_row :: row where
  "one_row = [(''timestamp'', CNum 500), (''temp_c'', CNum 22), (''pir_state'', CStr ''Occupied'')]"

definition roster_ok :: "booth_config list" where
  "roster_ok =
     [\<lparr>location = CStr ''Adelaide'', booth = CStr ''Booth A''\<rparr>,
      \<lparr>location = CStr ''Adelaide'', booth = CStr ''Booth B''\<rparr>,
      \<lparr>location = CStr ''Perth'', booth = CStr ''Booth A''\<rparr>]"

definition roster_numbered :: "booth_config list" where
  "roster_numbered =
     [\<lparr>location = CStr ''Adelaide'', booth = CNum 1\<rparr>,
      \<lparr>location = CStr ''Adelaide'', booth = CStr ''Booth B''\<rparr>]"

definition world_fresh :: world where
  "world_fresh = world0\<lparr>data_cache := example_cache, clock := 1100\<rparr>"

section \<open>Properties of the cache\<close>

lemma DataCache_get_fresh:
  "cache self key = Some e \<Longrightarrow> now - item_timestamp e < ttl self \<Longrightarrow>
   DataCache_get self key now = (Some (item_data e), self)"
  by (simp add: DataCache_get_def)

lemma DataCache_get_stale:
  "cache self key = Some e \<Longrightarrow> \<not> now - item_timestamp e < ttl self \<Longrightarrow>
   DataCache_get self key now = (None, self\<lparr>cache := (cache self)(key := None)\<rparr>)"
  by (simp add: DataCache_get_def)

lemma DataCache_get_absent:
  "cache self key = None \<Longrightarrow> DataCache_get self key now = (None, self)"
  by (simp add: DataCache_get_def)

text \<open>
  C6. For a key with an entry, \<open>get\<close> returns the stored series while the entry's age is
  strictly below the TTL; at an age of the TTL or more it returns absent and the entry is
  gone, so a later \<open>get\<close> of the key, at any time, finds nothing either.
\<close>

theorem C6_get_ttl:
  assumes "cache self key = Some e"
  shows "(now - item_timestamp e < ttl self \<longrightarrow>
            fst (DataCache_get self key now) = Some (item_data e)) \<and>
         (now - item_timestamp e \<ge> ttl self \<longrightarrow>
            fst (DataCache_get self key now) = None \<and>
            cache (snd (DataCache_get self key now)) key = None \<and>
            (\<forall>later. fst (DataCache_get (snd (DataCache_get self key now)) key later) = None))"
proof (intro conjI impI)
  assume "now - item_timestamp e < ttl self"
  with assms show "fst (DataCache_get self key now) = Some (item_data e)"
    by (simp add: DataCache_get_fresh)
next
  assume old: "now - item_timestamp e \<ge> ttl self"
  then have stale: "\<not> now - item_timestamp e < ttl self" by simp
  note g = DataCache_get_stale [OF assms stale]
  show "fst (DataCache_get self key now) = None" by (simp add: g)
  show gone: "cache (snd (DataCache_get self key now)) key = None" by (simp add: g)
  show "\<forall>later. fst (DataCache_get (snd (DataCache_get self key now)) key later) = None"
    using gone by (simp add: DataCache_get_absent)
qed

theorem C6_get_ttl_witness:
  "fst (DataCache_get example_cache ''Adelaide_BoothA'' 1119) = Some [no_fields] \<and>
   fst (DataCache_get example_cache ''Adelaide_BoothA'' 1120) = None \<and>
   cache (snd (DataCache_get example_cache ''Adelaide_BoothA'' 1120)) ''Adelaide_BoothA'' = None \<and>
   fst (DataCache_get (snd (DataCache_get example_cache ''Adelaide_BoothA'' 1120))
          ''Adelaide_BoothA'' 1121) = None"
  using C6_get_ttl [of example_cache "''Adelaide_BoothA''"
                       "\<lparr>item_data = [no_fields], item_timestamp = 1000\<rparr>" 1119]
        C6_get_ttl [of example_cache "''Adelaide_BoothA''"
                       "\<lparr>item_data = [no_fields], item_timestamp = 1000\<rparr>" 1120]
  by (simp add: example_cache_def)

section \<open>Properties of the comfort score\<close>

lemma sub_score_range: "sub_score m v \<in> {0, 25, 50, 75, 100}"
  by (cases m) simp_all

lemma calculate_comfort_score_eq_spec: "calculate_comfort_score r = comfortScore_spec r"
proof -
  have t: "(if 20 \<le> v \<and> v \<le> 25 then 100
            else if (18 \<le> v \<and> v < 20) \<or> (25 < v \<and> v \<le> 27) then 50 else (0::int))
           = sub_score Temperature v" for v :: real
    by auto
  have h: "(if 40 \<le> v \<and> v \<le> 50 then 100
            else if (30 \<le> v \<and> v < 40) \<or> (50 < v \<and> v \<le> 60) then 50 else (0::int))
           = sub_score Humidity v" for v :: real
    by auto
  have c: "(if v \<le> 600 then 100 else if v \<le> 1000 then 75
            else if v \<le> 2000 then 25 else (0::int)) = sub_score CO2 v" for v :: real
    by auto
  show ?thesis
    unfolding calculate_comfort_score_def comfortScore_spec_def present_scores_def Let_def t h c
    by (simp split: option.splits)
qed

text \<open>
  C9. The comfort score of a reading is the mean of the sub-scores that the table gives to
  the present values among temperature, humidity, CO2, VOC and PM2.5, each sub-score one of
  0, 25, 50, 75, 100, and it is 0 when none is present; the three readings of the
  specification score 100, 25 and 0.
\<close>

theorem C9_comfort_score:
  "calculate_comfort_score r = comfortScore_spec r \<and>
   (\<forall>m v. sub_score m v \<in> {0, 25, 50, 75, 100}) \<and>
   calculate_comfort_score
     (no_fields\<lparr>temp_c := Some 22, humidity_pct := Some 45, co2_ppm := Some 500,
                voc := Some 200, pm25_ugm3 := Some 10\<rparr>) = 100 \<and>
   calculate_comfort_score (no_fields\<lparr>co2_ppm := Some 1500\<rparr>) = 25 \<and>
   calculate_comfort_score no_fields = 0"
proof (intro conjI)
  show "calculate_comfort_score r = comfortScore_spec r"
    by (rule calculate_comfort_score_eq_spec)
  show "\<forall>m v. sub_score m v \<in> {0, 25, 50, 75, 100}"
    using sub_score_range by blast
  show "calculate_comfort_score
          (no_fields\<lparr>temp_c := Some 22, humidity_pct := Some 45, co2_ppm := Some 500,
                     voc := Some 200, pm25_ugm3 := Some 10\<rparr>) = 100"
    by (simp add: calculate_comfort_score_def no_fields_def)
  show "calculate_comfort_score (no_fields\<lparr>co2_ppm := Some 1500\<rparr>) = 25"
    by (simp add: calculate_comfort_score_def no_fields_def)
  show "calculate_comfort_score no_fields = 0"
    by (simp add: calculate_comfort_score_def no_fields_def)
qed

section \<open>Properties of the retrying fetch\<close>

lemma time_sleep_simps [simp]:
  "requests (time_sleep d w) = requests w"
  "data_cache (time_sleep d w) = data_cache w"
  "dummy_frames (time_sleep d w) = dummy_frames w"
  "clock (time_sleep d w) = clock w + d"
  "slept (time_sleep d w) = slept w @ [d]"
  by (simp_all add: time_sleep_def)

lemma retry_loop_done:
  "\<not> attempt < m \<Longrightarrow> retry_loop sp k m attempt w = (None, w)"
  by (subst retry_loop.simps) simp

lemma retry_loop_records:
  "attempt < m \<Longrightarrow> sp k (length (requests w)) = Records data \<Longrightarrow>
   retry_loop sp k m attempt w =
     (if data \<noteq> [] then Some data else None, w\<lparr>requests := requests w @ [k]\<rparr>)"
  by (subst retry_loop.simps) simp

lemma retry_loop_not_found:
  "attempt < m \<Longrightarrow> sp k (length (requests w)) = WorksheetNotFound \<Longrightarrow>
   retry_loop sp k m attempt w = (None, w\<lparr>requests := requests w @ [k]\<rparr>)"
  by (subst retry_loop.simps) simp

lemma retry_loop_error:
  "attempt < m \<Longrightarrow> sp k (length (requests w)) = APIError \<Longrightarrow>
   retry_loop sp k m attempt w =
     retry_loop sp k m (attempt + 1)
       (if attempt < m - 1 then time_sleep (2 ^ attempt) (w\<lparr>requests := requests w @ [k]\<rparr>)
        else w\<lparr>requests := requests w @ [k]\<rparr>)"
  by (subst retry_loop.simps) (simp add: Let_def)

lemma retry_loop_keeps:
  "data_cache (snd (retry_loop sp k m attempt w)) = data_cache w \<and>
   dummy_frames (snd (retry_loop sp k m attempt w)) = dummy_frames w"
proof (induction "m - attempt" arbitrary: attempt w)
  case 0
  then show ?case by (simp add: retry_loop_done)
next
  case (Suc n)
  then have lt: "attempt < m" and n: "n = m - (attempt + 1)" by simp_all
  show ?case
  proof (cases "sp k (length (requests w))")
    case (Records data)
    with lt show ?thesis by (simp add: retry_loop_records)
  next
    case WorksheetNotFound
    with lt show ?thesis by (simp add: retry_loop_not_found)
  next
    case APIError
    show ?thesis
      unfolding retry_loop_error [of attempt m sp k w, OF lt APIError]
      using Suc.hyps(1) [OF n] by simp
  qed
qed

lemma retry_loop_requests:
  "\<exists>rest. requests (snd (retry_loop sp k m attempt w)) = requests w @ rest"
proof (induction "m - attempt" arbitrary: attempt w)
  case 0
  then show ?case by (simp add: retry_loop_done)
next
  case (Suc n)
  then have lt: "attempt < m" and n: "n = m - (attempt + 1)" by simp_all
  show ?case
  proof (cases "sp k (length (requests w))")
    case (Records data)
    with lt show ?thesis by (simp add: retry_loop_records)
  next
    case WorksheetNotFound
    with lt show ?thesis by (simp add: retry_loop_not_found)
  next
    case APIError
    show ?thesis
      unfolding retry_loop_error [of attempt m sp k w, OF lt APIError]
      using Suc.hyps(1) [OF n, of "if attempt < m - 1
          then time_sleep (2 ^ attempt) (w\<lparr>requests := requests w @ [k]\<rparr>)
          else w\<lparr>requests := requests w @ [k]\<rparr>"]
      by auto
  qed
qed

lemma retry_loop_asks:
  assumes "attempt < m"
  shows "\<exists>rest. requests (snd (retry_loop sp k m attempt w)) = requests w @ k # rest"
proof (cases "sp k (length (requests w))")
  case (Records data)
  with assms show ?thesis by (simp add: retry_loop_records)
next
  case WorksheetNotFound
  with assms show ?thesis by (simp add: retry_loop_not_found)
next
  case APIError
  show ?thesis
    unfolding retry_loop_error [of attempt m sp k w, OF assms APIError]
    using retry_loop_requests [of sp k m "attempt + 1" "if attempt < m - 1
          then time_sleep (2 ^ attempt) (w\<lparr>requests := requests w @ [k]\<rparr>)
          else w\<lparr>requests := requests w @ [k]\<rparr>"]
    by auto
qed

lemma retry_loop_Some:
  "retry_loop sp k m attempt w = (Some data, w') \<Longrightarrow>
   \<exists>i. attempt + i < m \<and> sp k (length (requests w) + i) = Records data \<and> data \<noteq> [] \<and>
       (\<forall>j<i. sp k (length (requests w) + j) = APIError) \<and>
       requests w' = requests w @ replicate (Suc i) k"
proof (induction "m - attempt" arbitrary: attempt w)
  case 0
  then show ?case by (simp add: retry_loop_done)
next
  case (Suc n)
  then have lt: "attempt < m" and n: "n = m - (attempt + 1)" by simp_all
  show ?case
  proof (cases "sp k (length (requests w))")
    case (Records rows)
    with lt Suc.prems have "rows = data" "data \<noteq> []" "w' = w\<lparr>requests := requests w @ [k]\<rparr>"
      by (auto simp: retry_loop_records split: if_splits)
    with lt Records show ?thesis by (intro exI [of _ 0]) simp
  next
    case WorksheetNotFound
    with lt Suc.prems show ?thesis by (simp add: retry_loop_not_found)
  next
    case APIError
    let ?w1 = "if attempt < m - 1
          then time_sleep (2 ^ attempt) (w\<lparr>requests := requests w @ [k]\<rparr>)
          else w\<lparr>requests := requests w @ [k]\<rparr>"
    have req: "requests ?w1 = requests w @ [k]" by simp
    then have len: "length (requests ?w1) = length (requests w) + 1" by simp
    from Suc.prems have "retry_loop sp k m (attempt + 1) ?w1 = (Some data, w')"
      by (simp add: retry_loop_error [of attempt m sp k w, OF lt APIError])
    from Suc.hyps(1) [OF n this] obtain i where
      i: "attempt + 1 + i < m" "sp k (length (requests ?w1) + i) = Records data" "data \<noteq> []"
         "\<forall>j<i. sp k (length (requests ?w1) + j) = APIError"
         "requests w' = requests ?w1 @ replicate (Suc i) k"
      by blast
    have "\<forall>j<Suc i. sp k (length (requests w) + j) = APIError"
    proof (intro allI impI)
      fix j assume "j < Suc i"
      show "sp k (length (requests w) + j) = APIError"
      proof (cases j)
        case 0
        with APIError show ?thesis by simp
      next
        case (Suc j')
        with \<open>j < Suc i\<close> i(4) len show ?thesis by (simp add: add.commute add.left_commute)
      qed
    qed
    moreover from i(1) have "attempt + Suc i < m" by simp
    moreover from i(2) len have "sp k (length (requests w) + Suc i) = Records data"
      by (simp add: add.commute add.left_commute)
    moreover from i(5) req have "requests w' = requests w @ replicate (Suc (Suc i)) k"
      by simp
    ultimately show ?thesis using i(3) by blast
  qed
qed

lemma retry_loop_all_errors_3:
  assumes "\<forall>n. sp k n = APIError"
  shows "retry_loop sp k 3 0 w =
           (None, w\<lparr>requests := requests w @ [k, k, k], clock := clock w + 3,
                    slept := slept w @ [1, 2]\<rparr>)"
proof -
  have "retry_loop sp k 3 0 w =
          retry_loop sp k 3 1 (time_sleep 1 (w\<lparr>requests := requests w @ [k]\<rparr>))"
    using retry_loop_error [of 0 3 sp k w] assms by simp
  also have "\<dots> = retry_loop sp k 3 2
      (time_sleep 2 ((time_sleep 1 (w\<lparr>requests := requests w @ [k]\<rparr>))
         \<lparr>requests := requests w @ [k] @ [k]\<rparr>))"
    using retry_loop_error [of 1 3 sp k "time_sleep 1 (w\<lparr>requests := requests w @ [k]\<rparr>)"] assms
    by (simp add: numeral_2_eq_2)
  also have "\<dots> = retry_loop sp k 3 3
      ((time_sleep 2 ((time_sleep 1 (w\<lparr>requests := requests w @ [k]\<rparr>))
         \<lparr>requests := requests w @ [k] @ [k]\<rparr>))\<lparr>requests := requests w @ [k] @ [k] @ [k]\<rparr>)"
    using retry_loop_error [of 2 3 sp k "time_sleep 2 ((time_sleep 1 (w\<lparr>requests := requests w @ [k]\<rparr>))
         \<lparr>requests := requests w @ [k] @ [k]\<rparr>)"] assms
    by (simp add: numeral_3_eq_3)
  also have "\<dots> = (None, (time_sleep 2 ((time_sleep 1 (w\<lparr>requests := requests w @ [k]\<rparr>))
         \<lparr>requests := requests w @ [k] @ [k]\<rparr>))\<lparr>requests := requests w @ [k] @ [k] @ [k]\<rparr>)"
    by (simp add: retry_loop_done)
  finally show ?thesis by (simp add: time_sleep_def)
qed

text \<open>
  C7. When the sheet answers the first attempt with "worksheet not found", the fetch
  returns absent after that one attempt: one request is logged, nothing is slept, and
  nothing else of the state changes.
\<close>

theorem C7_not_found_single_call:
  assumes "spreadsheet e = Some sp"
      and "sp key (length (requests w)) = WorksheetNotFound"
      and "0 < max_retries"
  shows "fetch_worksheet_with_retry e key max_retries w =
           (None, w\<lparr>requests := requests w @ [key]\<rparr>)"
  using assms by (simp add: fetch_worksheet_with_retry_def retry_loop_not_found)

theorem C7_not_found_single_call_witness:
  "fetch_worksheet_with_retry (env0 (Some (\<lambda>k n. WorksheetNotFound)) []) ''Adelaide_BoothA'' 3 world0 =
     (None, world0\<lparr>requests := [''Adelaide_BoothA'']\<rparr>)"
  using C7_not_found_single_call
          [of "env0 (Some (\<lambda>k n. WorksheetNotFound)) []" "\<lambda>k n. WorksheetNotFound"
              "''Adelaide_BoothA''" world0 3]
  by (simp add: env0_def world0_def)

text \<open>
  C3, as the code has it. Against a sheet that fails every attempt with a transient
  error, the fetch makes exactly three attempts, sleeps 1 and then 2 seconds between them
  (\<open>2 ^ attempt\<close> after the attempts 0 and 1, nothing after the last one), and returns
  absent.
\<close>

theorem C3_three_attempts_two_waits:
  assumes "spreadsheet e = Some sp"
      and "\<forall>n. sp key n = APIError"
  shows "fetch_worksheet_with_retry e key 3 w =
           (None, w\<lparr>requests := requests w @ [key, key, key], clock := clock w + 3,
                    slept := slept w @ [1, 2]\<rparr>)"
  using assms by (simp add: fetch_worksheet_with_retry_def retry_loop_all_errors_3)

theorem C3_three_attempts_two_waits_witness:
  "fetch_worksheet_with_retry (env0 (Some (\<lambda>k n. APIError)) []) ''Adelaide_BoothA'' 3 world0 =
     (None, world0\<lparr>requests := [''Adelaide_BoothA'', ''Adelaide_BoothA'', ''Adelaide_BoothA''],
                   clock := 1003, slept := [1, 2]\<rparr>)"
  using C3_three_attempts_two_waits
          [of "env0 (Some (\<lambda>k n. APIError)) []" "\<lambda>k n. APIError" "''Adelaide_BoothA''" world0]
  by (simp add: env0_def world0_def)

text \<open>
  The claim C3 as stated, with waits of 1, 2 and 4, fails: on the always failing sheet the
  three attempts are made and the sleeps are 1 and 2 only.
\<close>

theorem C3_waits_counterexample:
  "length (requests (snd (fetch_worksheet_with_retry (env0 (Some (\<lambda>k n. APIError)) [])
       ''Adelaide_BoothA'' 3 world0))) = 3 \<and>
   slept (snd (fetch_worksheet_with_retry (env0 (Some (\<lambda>k n. APIError)) [])
       ''Adelaide_BoothA'' 3 world0)) = [1, 2] \<and>
   slept (snd (fetch_worksheet_with_retry (env0 (Some (\<lambda>k n. APIError)) [])
       ''Adelaide_BoothA'' 3 world0)) \<noteq> [1, 2, 4]"
  by (simp add: fetch_worksheet_with_retry_def env0_def world0_def retry_loop_all_errors_3)

section \<open>Properties of load_sensor_data\<close>

lemma cache_key_strings:
  "cache_key (CStr loc) (CStr b) = Inr (replace_spaces loc @ ''_'' @ replace_spaces b)"
  by (simp add: cache_key_def str_replace_def)

lemma cache_key_Inr:
  "cache_key l b = Inr key \<Longrightarrow> \<exists>loc bo. l = CStr loc \<and> b = CStr bo"
  by (auto simp: cache_key_def str_replace_def split: cell.splits)

lemma cache_key_error:
  "cache_key l b = Inl err \<Longrightarrow> load_sensor_data e l b w = Inl err"
  by (simp add: load_sensor_data_def)

lemma DataCache_get_cases:
  obtains (hit) item where "cache c key = Some item" "now - item_timestamp item < ttl c"
      "DataCache_get c key now = (Some (item_data item), c)"
  | (miss) "fst (DataCache_get c key now) = None"
      "snd (DataCache_get c key now) = c\<lparr>cache := (cache c)(key := None)\<rparr>"
proof (cases "cache c key")
  case None
  then have "(cache c)(key := None) = cache c" by (simp add: fun_upd_idem)
  with None miss show ?thesis by (simp add: DataCache_get_def)
next
  case (Some item)
  show ?thesis
  proof (cases "now - item_timestamp item < ttl c")
    case True
    with Some hit show ?thesis by (simp add: DataCache_get_def)
  next
    case False
    with Some miss show ?thesis by (simp add: DataCache_get_def)
  qed
qed

lemma DataCache_get_miss:
  assumes "fst (DataCache_get c key now) = None"
  shows "DataCache_get c key now = (None, c\<lparr>cache := (cache c)(key := None)\<rparr>)"
  using assms by (cases rule: DataCache_get_cases [of c key now]) (auto simp: prod_eq_iff)

lemma load_miss_connected:
  assumes key: "cache_key l b = Inr key"
      and sp: "spreadsheet e = Some sp"
      and miss: "fst (DataCache_get (data_cache w) key (clock w)) = None"
  shows "load_sensor_data e l b w =
     (let w1 = w\<lparr>data_cache := (data_cache w)\<lparr>cache := (cache (data_cache w))(key := None)\<rparr>\<rparr> in
      case retry_loop sp key 3 0 w1 of
        (None, w2) \<Rightarrow> Inr (None, w2)
      | (Some data, w2) \<Rightarrow>
          if \<not> df_empty data
          then Inr (Some (normalize (pd e) data),
                 w2\<lparr>data_cache := DataCache_set (data_cache w2) key (normalize (pd e) data) (clock w2)\<rparr>)
          else Inr (None, w2))"
  using key sp DataCache_get_miss [OF miss]
  by (simp add: load_sensor_data_def fetch_worksheet_with_retry_def Let_def
           split: prod.splits option.splits)

lemma load_hit:
  assumes "cache_key l b = Inr key"
      and "cache (data_cache w) key = Some item"
      and "clock w - item_timestamp item < ttl (data_cache w)"
  shows "load_sensor_data e l b w = Inr (Some (item_data item), w)"
  using assms by (simp add: load_sensor_data_def DataCache_get_fresh)

lemma load_unconnected:
  assumes "cache_key l b = Inr key"
      and "spreadsheet e = None"
      and miss: "fst (DataCache_get (data_cache w) key (clock w)) = None"
  shows "load_sensor_data e l b w =
     Inr (Some (create_dummy_data (clock w) (np_random e (dummy_frames w))),
          w\<lparr>data_cache := (data_cache w)\<lparr>cache := (cache (data_cache w))(key := None)\<rparr>,
            dummy_frames := dummy_frames w + 1\<rparr>)"
  using assms(1,2) DataCache_get_miss [OF miss]
  by (simp add: load_sensor_data_def Let_def)

lemma load_miss_asks:
  assumes key: "cache_key l b = Inr key"
      and sp: "spreadsheet e = Some sp"
      and miss: "fst (DataCache_get (data_cache w) key (clock w)) = None"
  shows "\<exists>r w3 rest. load_sensor_data e l b w = Inr (r, w3) \<and>
           requests w3 = requests w @ key # rest"
proof -
  let ?w1 = "w\<lparr>data_cache := (data_cache w)\<lparr>cache := (cache (data_cache w))(key := None)\<rparr>\<rparr>"
  obtain r w2 where run: "retry_loop sp key 3 0 ?w1 = (r, w2)" by force
  from retry_loop_asks [of 0 3 sp key ?w1] run obtain rest where
    "requests w2 = requests w @ key # rest" by auto
  then show ?thesis
    unfolding load_miss_connected [OF key sp miss] Let_def run
    by (cases r) auto
qed

lemma key_example:
  "cache_key (CStr ''Adelaide'') (CStr ''Booth A'') = Inr ''Adelaide_BoothA''"
  by (simp add: cache_key_def str_replace_def replace_spaces_def)

lemma failed_fetch_None:
  assumes run: "retry_loop sp key 3 0 w1 = (r, w2)"
      and fail: "(\<exists>k<3. (\<forall>i<k. sp key (length (requests w1) + i) = APIError) \<and>
                     sp key (length (requests w1) + k) = WorksheetNotFound) \<or>
                 (\<forall>i<3. sp key (length (requests w1) + i) = APIError)"
  shows "r = None"
proof (cases r)
  case None
  then show ?thesis .
next
  case (Some data)
  with run have "retry_loop sp key 3 0 w1 = (Some data, w2)" by simp
  from retry_loop_Some [OF this] obtain i where
    i: "i < 3" "sp key (length (requests w1) + i) = Records data"
       "\<forall>j<i. sp key (length (requests w1) + j) = APIError"
    by auto
  from fail show ?thesis
  proof
    assume "\<exists>k<3. (\<forall>i<k. sp key (length (requests w1) + i) = APIError) \<and>
                sp key (length (requests w1) + k) = WorksheetNotFound"
    then obtain k where k: "\<forall>i<k. sp key (length (requests w1) + i) = APIError"
        "sp key (length (requests w1) + k) = WorksheetNotFound" by blast
    consider "i < k" | "i = k" | "k < i" by linarith
    then show ?thesis
    proof cases
      case 1 with k(1) i(2) show ?thesis by simp
    next
      case 2 with k(2) i(2) show ?thesis by simp
    next
      case 3 with k(2) i(3) show ?thesis by simp
    qed
  next
    assume "\<forall>i<3. sp key (length (requests w1) + i) = APIError"
    with i(1,2) show ?thesis by simp
  qed
qed

lemma retry_loop_first_answer:
  assumes "attempt + k < m"
      and "\<forall>i<k. sp key (length (requests w) + i) = APIError"
      and "sp key (length (requests w) + k) = Records data"
  shows "fst (retry_loop sp key m attempt w) = (if data \<noteq> [] then Some data else None) \<and>
         requests (snd (retry_loop sp key m attempt w)) = requests w @ replicate (Suc k) key"
  using assms
proof (induction k arbitrary: attempt w)
  case 0
  then show ?case by (simp add: retry_loop_records)
next
  case (Suc k)
  from Suc.prems(1) have lt: "attempt < m" by simp
  from Suc.prems(2) have err: "sp key (length (requests w)) = APIError" by force
  let ?w1 = "if attempt < m - 1
        then time_sleep (2 ^ attempt) (w\<lparr>requests := requests w @ [key]\<rparr>)
        else w\<lparr>requests := requests w @ [key]\<rparr>"
  have req: "requests ?w1 = requests w @ [key]" by simp
  then have len: "length (requests ?w1) = Suc (length (requests w))" by simp
  have a: "(attempt + 1) + k < m" using Suc.prems(1) by simp
  have b: "\<forall>i<k. sp key (length (requests ?w1) + i) = APIError"
  proof (intro allI impI)
    fix i assume "i < k"
    then have "Suc i < Suc k" by simp
    with Suc.prems(2) have "sp key (length (requests w) + Suc i) = APIError" by blast
    then show "sp key (length (requests ?w1) + i) = APIError" by (simp only: len) simp
  qed
  have c: "sp key (length (requests ?w1) + k) = Records data"
    using Suc.prems(3) by (simp only: len) simp
  from Suc.IH [OF a b c] req show ?case
    by (simp only: retry_loop_error [of attempt m sp key w, OF lt err]) simp
qed

lemma load_answered:
  assumes key: "cache_key l b = Inr key"
      and sp: "spreadsheet e = Some sp"
      and miss: "fst (DataCache_get (data_cache w) key (clock w)) = None"
      and k: "k < 3" "\<forall>i<k. sp key (length (requests w) + i) = APIError"
             "sp key (length (requests w) + k) = Records data"
  shows "df_empty data \<Longrightarrow> \<exists>w'. load_sensor_data e l b w = Inr (None, w')"
    and "\<not> df_empty data \<Longrightarrow>
         \<exists>w'. load_sensor_data e l b w = Inr (Some (normalize (pd e) data), w') \<and>
              requests w' = requests w @ replicate (Suc k) key \<and>
              cache (data_cache w') key =
                Some \<lparr>item_data = normalize (pd e) data, item_timestamp = clock w'\<rparr>"
proof -
  let ?w1 = "w\<lparr>data_cache := (data_cache w)\<lparr>cache := (cache (data_cache w))(key := None)\<rparr>\<rparr>"
  obtain r w2 where run: "retry_loop sp key 3 0 ?w1 = (r, w2)" by force
  have "0 + k < (3::nat)" using k(1) by simp
  from retry_loop_first_answer [of 0 k 3 sp key ?w1 data, OF this] k(2,3) run
  have r: "r = (if data \<noteq> [] then Some data else None)"
    and req: "requests w2 = requests w @ replicate (Suc k) key"
    by simp_all
  note load = load_miss_connected [OF key sp miss, unfolded Let_def run]
  show "\<exists>w'. load_sensor_data e l b w = Inr (None, w')" if "df_empty data"
    using that r by (cases "data = []") (simp_all add: load)
  show "\<exists>w'. load_sensor_data e l b w = Inr (Some (normalize (pd e) data), w') \<and>
              requests w' = requests w @ replicate (Suc k) key \<and>
              cache (data_cache w') key =
                Some \<lparr>item_data = normalize (pd e) data, item_timestamp = clock w'\<rparr>"
    if "\<not> df_empty data"
  proof -
    from that have "data \<noteq> []" by (auto simp: df_empty_def)
    with r have "r = Some data" by simp
    with that req show ?thesis by (simp add: load DataCache_set_def)
  qed
qed

lemma load_failed:
  assumes key: "cache_key l b = Inr key"
      and sp: "spreadsheet e = Some sp"
      and miss: "fst (DataCache_get (data_cache w) key (clock w)) = None"
      and fail: "(\<exists>k<3. (\<forall>i<k. sp key (length (requests w) + i) = APIError) \<and>
                     sp key (length (requests w) + k) = WorksheetNotFound) \<or>
                 (\<forall>i<3. sp key (length (requests w) + i) = APIError)"
  shows "\<exists>w'. load_sensor_data e l b w = Inr (None, w')"
proof -
  let ?w1 = "w\<lparr>data_cache := (data_cache w)\<lparr>cache := (cache (data_cache w))(key := None)\<rparr>\<rparr>"
  obtain r w2 where run: "retry_loop sp key 3 0 ?w1 = (r, w2)" by force
  from fail have "r = None" by (intro failed_fetch_None [OF run]) simp
  then show ?thesis
    unfolding load_miss_connected [OF key sp miss] Let_def run by simp
qed

lemma length_create_dummy_data: "length (create_dummy_data now rnd) = 24"
  by (simp add: create_dummy_data_def)

text \<open>
  C1, as the code has it. What \<open>load_sensor_data\<close> does is decided in every case.
  Where a name is not text it raises \<open>AttributeError\<close>. Where both names are text it
  raises nothing, and: on a cache entry that has not expired it returns the entry's frame
  and changes nothing; on a miss without a connection to the sheet it returns a frame of
  dummy data, 24 rows drawn at random, and not absent; on a miss with a connection it
  returns the normalisation of the records the sheet answers with (after at most two
  transient failures) and caches it, but absent when those records make an empty frame,
  when the worksheet is not found, and when all three attempts fail.
\<close>

theorem C1_load_result:
  "(cache_key loc_name booth_name = Inl err \<longrightarrow>
      load_sensor_data e loc_name booth_name w = Inl AttributeError) \<and>
   (cache_key loc_name booth_name = Inr key \<longrightarrow>
      (\<forall>item. cache (data_cache w) key = Some item \<and>
              clock w - item_timestamp item < ttl (data_cache w) \<longrightarrow>
         load_sensor_data e loc_name booth_name w = Inr (Some (item_data item), w)) \<and>
      (fst (DataCache_get (data_cache w) key (clock w)) = None \<and> spreadsheet e = None \<longrightarrow>
         load_sensor_data e loc_name booth_name w =
           Inr (Some (create_dummy_data (clock w) (np_random e (dummy_frames w))),
                w\<lparr>data_cache := (data_cache w)\<lparr>cache := (cache (data_cache w))(key := None)\<rparr>,
                  dummy_frames := dummy_frames w + 1\<rparr>) \<and>
         length (create_dummy_data (clock w) (np_random e (dummy_frames w))) = 24) \<and>
      (\<forall>sp. fst (DataCache_get (data_cache w) key (clock w)) = None \<and>
            spreadsheet e = Some sp \<longrightarrow>
         (\<forall>k data. k < 3 \<and> (\<forall>i<k. sp key (length (requests w) + i) = APIError) \<and>
                   sp key (length (requests w) + k) = Records data \<longrightarrow>
            (df_empty data \<longrightarrow>
               (\<exists>w'. load_sensor_data e loc_name booth_name w = Inr (None, w'))) \<and>
            (\<not> df_empty data \<longrightarrow>
               (\<exists>w'. load_sensor_data e loc_name booth_name w =
                        Inr (Some (normalize (pd e) data), w') \<and>
                     requests w' = requests w @ replicate (Suc k) key \<and>
                     cache (data_cache w') key =
                       Some \<lparr>item_data = normalize (pd e) data, item_timestamp = clock w'\<rparr>))) \<and>
         ((\<exists>k<3. (\<forall>i<k. sp key (length (requests w) + i) = APIError) \<and>
                  sp key (length (requests w) + k) = WorksheetNotFound) \<or>
          (\<forall>i<3. sp key (length (requests w) + i) = APIError) \<longrightarrow>
            (\<exists>w'. load_sensor_data e loc_name booth_name w = Inr (None, w')))))"
proof (intro conjI impI allI)
  assume "cache_key loc_name booth_name = Inl err"
  moreover have "err = AttributeError" by (cases err) simp
  ultimately show "load_sensor_data e loc_name booth_name w = Inl AttributeError"
    by (simp add: cache_key_error)
next
  fix item
  assume "cache_key loc_name booth_name = Inr key"
     and "cache (data_cache w) key = Some item \<and>
          clock w - item_timestamp item < ttl (data_cache w)"
  then show "load_sensor_data e loc_name booth_name w = Inr (Some (item_data item), w)"
    by (simp add: load_hit)
next
  assume "cache_key loc_name booth_name = Inr key"
     and "fst (DataCache_get (data_cache w) key (clock w)) = None \<and> spreadsheet e = None"
  then show "load_sensor_data e loc_name booth_name w =
           Inr (Some (create_dummy_data (clock w) (np_random e (dummy_frames w))),
                w\<lparr>data_cache := (data_cache w)\<lparr>cache := (cache (data_cache w))(key := None)\<rparr>,
                  dummy_frames := dummy_frames w + 1\<rparr>)"
    by (simp add: load_unconnected)
next
  show "length (create_dummy_data (clock w) (np_random e (dummy_frames w))) = 24"
    by (rule length_create_dummy_data)
next
  fix sp k data
  assume key: "cache_key loc_name booth_name = Inr key"
     and c: "fst (DataCache_get (data_cache w) key (clock w)) = None \<and> spreadsheet e = Some sp"
     and k: "k < 3 \<and> (\<forall>i<k. sp key (length (requests w) + i) = APIError) \<and>
                   sp key (length (requests w) + k) = Records data"
  from c have sp: "spreadsheet e = Some sp"
    and miss: "fst (DataCache_get (data_cache w) key (clock w)) = None" by simp_all
  from k have k1: "k < 3" and k2: "\<forall>i<k. sp key (length (requests w) + i) = APIError"
    and k3: "sp key (length (requests w) + k) = Records data" by simp_all
  note la = load_answered [OF key sp miss k1 k2 k3]
  { assume "df_empty data"
    then show "\<exists>w'. load_sensor_data e loc_name booth_name w = Inr (None, w')" by (rule la(1)) }
  { assume "\<not> df_empty data"
    then show "\<exists>w'. load_sensor_data e loc_name booth_name w =
                        Inr (Some (normalize (pd e) data), w') \<and>
                     requests w' = requests w @ replicate (Suc k) key \<and>
                     cache (data_cache w') key =
                       Some \<lparr>item_data = normalize (pd e) data, item_timestamp = clock w'\<rparr>"
      by (rule la(2)) }
next
  fix sp
  assume key: "cache_key loc_name booth_name = Inr key"
     and c: "fst (DataCache_get (data_cache w) key (clock w)) = None \<and> spreadsheet e = Some sp"
     and fail: "(\<exists>k<3. (\<forall>i<k. sp key (length (requests w) + i) = APIError) \<and>
                  sp key (length (requests w) + k) = WorksheetNotFound) \<or>
          (\<forall>i<3. sp key (length (requests w) + i) = APIError)"
  from c have sp: "spreadsheet e = Some sp"
    and miss: "fst (DataCache_get (data_cache w) key (clock w)) = None" by simp_all
  from load_failed [OF key sp miss fail]
  show "\<exists>w'. load_sensor_data e loc_name booth_name w = Inr (None, w')" .
qed

theorem C1_load_result_witness:
  "load_sensor_data (env0 None []) (CStr ''Adelaide'') (CNum 1) world0 = Inl AttributeError \<and>
   load_sensor_data (env0 None []) (CStr ''Adelaide'') (CStr ''Booth A'') world_fresh =
     Inr (Some [no_fields], world_fresh) \<and>
   load_sensor_data (env0 None []) (CStr ''Adelaide'') (CStr ''Booth A'') world0 =
     Inr (Some (create_dummy_data 1000 (\<lambda>i. draw0)), world0\<lparr>dummy_frames := 1\<rparr>) \<and>
   (\<exists>w'. load_sensor_data (env0 (Some (\<lambda>k n. Records [one_row])) [])
            (CStr ''Adelaide'') (CStr ''Booth A'') world0 =
              Inr (Some (normalize lib0 [one_row]), w') \<and>
         requests w' = [''Adelaide_BoothA''] \<and>
         cache (data_cache w') ''Adelaide_BoothA'' =
           Some \<lparr>item_data = normalize lib0 [one_row], item_timestamp = clock w'\<rparr>) \<and>
   (\<exists>w'. load_sensor_data (env0 (Some (\<lambda>k n. WorksheetNotFound)) [])
            (CStr ''Adelaide'') (CStr ''Booth A'') world0 = Inr (None, w'))"
proof (intro conjI)
  have bad: "cache_key (CStr ''Adelaide'') (CNum 1) = Inl AttributeError"
    by (simp add: cache_key_def str_replace_def)
  from C1_load_result [where loc_name = "CStr ''Adelaide''" and booth_name = "CNum 1"
      and err = AttributeError and e = "env0 None []" and w = world0] bad
  show "load_sensor_data (env0 None []) (CStr ''Adelaide'') (CNum 1) world0 = Inl AttributeError"
    by blast
next
  have item: "cache (data_cache world_fresh) ''Adelaide_BoothA'' =
                Some \<lparr>item_data = [no_fields], item_timestamp = 1000\<rparr> \<and>
              clock world_fresh - item_timestamp \<lparr>item_data = [no_fields], item_timestamp = 1000\<rparr>
                < ttl (data_cache world_fresh)"
    by (simp add: world_fresh_def world0_def example_cache_def)
  from C1_load_result [where loc_name = "CStr ''Adelaide''" and booth_name = "CStr ''Booth A''"
      and key = "''Adelaide_BoothA''" and e = "env0 None []" and w = world_fresh] key_example
  have "\<forall>item. cache (data_cache world_fresh) ''Adelaide_BoothA'' = Some item \<and>
              clock world_fresh - item_timestamp item < ttl (data_cache world_fresh) \<longrightarrow>
         load_sensor_data (env0 None []) (CStr ''Adelaide'') (CStr ''Booth A'') world_fresh =
           Inr (Some (item_data item), world_fresh)"
    by blast
  with item show "load_sensor_data (env0 None []) (CStr ''Adelaide'') (CStr ''Booth A'') world_fresh =
     Inr (Some [no_fields], world_fresh)"
    by force
next
  have miss: "fst (DataCache_get (data_cache world0) ''Adelaide_BoothA'' (clock world0)) = None \<and>
              spreadsheet (env0 None []) = None"
    by (simp add: DataCache_get_def world0_def env0_def)
  from C1_load_result [where loc_name = "CStr ''Adelaide''" and booth_name = "CStr ''Booth A''"
      and key = "''Adelaide_BoothA''" and e = "env0 None []" and w = world0] key_example miss
  have "load_sensor_data (env0 None []) (CStr ''Adelaide'') (CStr ''Booth A'') world0 =
           Inr (Some (create_dummy_data (clock world0)
                  (np_random (env0 None []) (dummy_frames world0))),
                world0\<lparr>data_cache := (data_cache world0)
                         \<lparr>cache := (cache (data_cache world0))(''Adelaide_BoothA'' := None)\<rparr>,
                  dummy_frames := dummy_frames world0 + 1\<rparr>)"
    by blast
  then show "load_sensor_data (env0 None []) (CStr ''Adelaide'') (CStr ''Booth A'') world0 =
     Inr (Some (create_dummy_data 1000 (\<lambda>i. draw0)), world0\<lparr>dummy_frames := 1\<rparr>)"
    by (simp add: world0_def env0_def)
next
  let ?e = "env0 (Some (\<lambda>k n. Records [one_row])) []"
  have miss: "fst (DataCache_get (data_cache world0) ''Adelaide_BoothA'' (clock world0)) = None \<and>
              spreadsheet ?e = Some (\<lambda>k n. Records [one_row])"
    by (simp add: DataCache_get_def world0_def env0_def)
  have k: "(0::nat) < 3 \<and>
           (\<forall>i<0. (\<lambda>k n. Records [one_row]) ''Adelaide_BoothA'' (length (requests world0) + i) = APIError) \<and>
           (\<lambda>k n. Records [one_row]) ''Adelaide_BoothA'' (length (requests world0) + 0) = Records [one_row]"
    by simp
  have ne: "\<not> df_empty [one_row]"
    by (simp add: df_empty_def columns_def one_row_def)
  from C1_load_result [where loc_name = "CStr ''Adelaide''" and booth_name = "CStr ''Booth A''"
      and key = "''Adelaide_BoothA''" and e = ?e and w = world0] key_example
  have "\<forall>sp. fst (DataCache_get (data_cache world0) ''Adelaide_BoothA'' (clock world0)) = None \<and>
            spreadsheet ?e = Some sp \<longrightarrow>
         (\<forall>k data. k < 3 \<and> (\<forall>i<k. sp ''Adelaide_BoothA'' (length (requests world0) + i) = APIError) \<and>
                   sp ''Adelaide_BoothA'' (length (requests world0) + k) = Records data \<longrightarrow>
            (\<not> df_empty data \<longrightarrow>
               (\<exists>w'. load_sensor_data ?e (CStr ''Adelaide'') (CStr ''Booth A'') world0 =
                        Inr (Some (normalize (pd ?e) data), w') \<and>
                     requests w' = requests world0 @ replicate (Suc k) ''Adelaide_BoothA'' \<and>
                     cache (data_cache w') ''Adelaide_BoothA'' =
                       Some \<lparr>item_data = normalize (pd ?e) data, item_timestamp = clock w'\<rparr>)))"
    by blast
  from this [rule_format, OF miss k ne]
  show "\<exists>w'. load_sensor_data ?e (CStr ''Adelaide'') (CStr ''Booth A'') world0 =
              Inr (Some (normalize lib0 [one_row]), w') \<and>
         requests w' = [''Adelaide_BoothA''] \<and>
         cache (data_cache w') ''Adelaide_BoothA'' =
           Some \<lparr>item_data = normalize lib0 [one_row], item_timestamp = clock w'\<rparr>"
    by (simp add: env0_def world0_def)
next
  let ?e = "env0 (Some (\<lambda>k n. WorksheetNotFound)) []"
  have miss: "fst (DataCache_get (data_cache world0) ''Adelaide_BoothA'' (clock world0)) = None \<and>
              spreadsheet ?e = Some (\<lambda>k n. WorksheetNotFound)"
    by (simp add: DataCache_get_def world0_def env0_def)
  have fail: "(\<exists>k<3. (\<forall>i<k. (\<lambda>k n. WorksheetNotFound) ''Adelaide_BoothA''
                   (length (requests world0) + i) = APIError) \<and>
                 (\<lambda>k n. WorksheetNotFound) ''Adelaide_BoothA''
                   (length (requests world0) + k) = WorksheetNotFound) \<or>
              (\<forall>i<3. (\<lambda>k n. WorksheetNotFound) ''Adelaide_BoothA''
                   (length (requests world0) + i) = APIError)"
    by (intro disjI1 exI [of _ 0]) simp
  from C1_load_result [where loc_name = "CStr ''Adelaide''" and booth_name = "CStr ''Booth A''"
      and key = "''Adelaide_BoothA''" and e = ?e and w = world0] key_example
  have "\<forall>sp. fst (DataCache_get (data_cache world0) ''Adelaide_BoothA'' (clock world0)) = None \<and>
            spreadsheet ?e = Some sp \<longrightarrow>
         ((\<exists>k<3. (\<forall>i<k. sp ''Adelaide_BoothA'' (length (requests world0) + i) = APIError) \<and>
                  sp ''Adelaide_BoothA'' (length (requests world0) + k) = WorksheetNotFound) \<or>
          (\<forall>i<3. sp ''Adelaide_BoothA'' (length (requests world0) + i) = APIError) \<longrightarrow>
            (\<exists>w'. load_sensor_data ?e (CStr ''Adelaide'') (CStr ''Booth A'') world0 = Inr (None, w')))"
    by blast
  from this [rule_format, OF miss fail]
  show "\<exists>w'. load_sensor_data ?e (CStr ''Adelaide'') (CStr ''Booth A'') world0 = Inr (None, w')" .
qed

text \<open>
  The claim C1 as stated fails where the connection is missing: the load of a key that is
  not cached returns the dummy frame of 24 rows, and no request was made of the sheet.
\<close>

theorem C1_dummy_counterexample:
  "spreadsheet (env0 None []) = None \<and>
   load_sensor_data (env0 None []) (CStr ''Adelaide'') (CStr ''Booth A'') world0 =
     Inr (Some (create_dummy_data 1000 (\<lambda>i. draw0)), world0\<lparr>dummy_frames := 1\<rparr>) \<and>
   length (create_dummy_data 1000 (\<lambda>i. draw0)) = 24 \<and>
   requests (world0\<lparr>dummy_frames := 1\<rparr>) = []"
  by (simp add: load_sensor_data_def key_example DataCache_get_def env0_def world0_def
        create_dummy_data_def)

text \<open>
  C8, as the code has it. When the cache has no live entry for the key and the fetch ends
  in "not found" (after at most two transient failures) or in three transient failures,
  the load returns absent, and the cache is the one before the call with the key's
  expired entry, if it had one, discarded by the lookup: nothing is added or overwritten,
  and a cache without an entry for the key is unchanged.
\<close>

theorem C8_failed_load_cache:
  assumes key: "cache_key loc_name booth_name = Inr key"
      and sp: "spreadsheet e = Some sp"
      and miss: "fst (DataCache_get (data_cache w) key (clock w)) = None"
      and fail: "(\<exists>k<3. (\<forall>i<k. sp key (length (requests w) + i) = APIError) \<and>
                     sp key (length (requests w) + k) = WorksheetNotFound) \<or>
                 (\<forall>i<3. sp key (length (requests w) + i) = APIError)"
  shows "\<exists>w'. load_sensor_data e loc_name booth_name w = Inr (None, w') \<and>
           data_cache w' = (data_cache w)\<lparr>cache := (cache (data_cache w))(key := None)\<rparr> \<and>
           (cache (data_cache w) key = None \<longrightarrow> data_cache w' = data_cache w)"
proof -
  let ?w1 = "w\<lparr>data_cache := (data_cache w)\<lparr>cache := (cache (data_cache w))(key := None)\<rparr>\<rparr>"
  obtain r w2 where run: "retry_loop sp key 3 0 ?w1 = (r, w2)" by force
  from fail have "r = None" by (intro failed_fetch_None [OF run]) simp
  moreover from retry_loop_keeps [of sp key 3 0 ?w1] run
  have "data_cache w2 = (data_cache w)\<lparr>cache := (cache (data_cache w))(key := None)\<rparr>"
    by simp
  moreover have "cache (data_cache w) key = None \<Longrightarrow>
      (data_cache w)\<lparr>cache := (cache (data_cache w))(key := None)\<rparr> = data_cache w"
    by (simp add: fun_upd_idem)
  ultimately show ?thesis
    unfolding load_miss_connected [OF key sp miss] Let_def run by simp
qed

theorem C8_failed_load_cache_witness:
  "\<exists>w'. load_sensor_data (env0 (Some (\<lambda>k n. WorksheetNotFound)) [])
            (CStr ''Adelaide'') (CStr ''Booth A'') world0 = Inr (None, w') \<and>
         data_cache w' = data_cache world0"
proof -
  have miss: "fst (DataCache_get (data_cache world0) ''Adelaide_BoothA'' (clock world0)) = None"
    by (simp add: DataCache_get_def world0_def)
  have fail: "(\<exists>k<3. (\<forall>i<k. (\<lambda>k n. WorksheetNotFound) ''Adelaide_BoothA''
                   (length (requests world0) + i) = APIError) \<and>
                 (\<lambda>k n. WorksheetNotFound) ''Adelaide_BoothA''
                   (length (requests world0) + k) = WorksheetNotFound) \<or>
              (\<forall>i<3. (\<lambda>k n. WorksheetNotFound) ''Adelaide_BoothA''
                   (length (requests world0) + i) = APIError)"
    by (intro disjI1 exI [of _ 0]) simp
  have sp: "spreadsheet (env0 (Some (\<lambda>k n. WorksheetNotFound)) []) = Some (\<lambda>k n. WorksheetNotFound)"
    by (simp add: env0_def)
  have none: "cache (data_cache world0) ''Adelaide_BoothA'' = None"
    by (simp add: world0_def)
  from C8_failed_load_cache [OF key_example sp miss fail] none show ?thesis by auto
qed

text \<open>
  The claim C8 as stated fails on an expired entry: the lookup that opens the load deletes
  it, the fetch finds no worksheet, and the cache after the call lacks the entry it had
  before.
\<close>

theorem C8_stale_entry_counterexample:
  "cache (data_cache world_stale) ''Adelaide_BoothA'' \<noteq> None \<and>
   load_sensor_data (env0 (Some (\<lambda>k n. WorksheetNotFound)) [])
       (CStr ''Adelaide'') (CStr ''Booth A'') world_stale =
     Inr (None, world_stale\<lparr>data_cache := \<lparr>cache = Map.empty, ttl = 120\<rparr>,
                            requests := [''Adelaide_BoothA'']\<rparr>) \<and>
   cache (data_cache (world_stale\<lparr>data_cache := \<lparr>cache = Map.empty, ttl = 120\<rparr>,
                            requests := [''Adelaide_BoothA'']\<rparr>)) ''Adelaide_BoothA'' = None"
  by (simp add: load_sensor_data_def key_example DataCache_get_def env0_def world0_def
        world_stale_def example_cache_def fetch_worksheet_with_retry_def retry_loop_not_found)

text \<open>
  C10, as the code has it. When the cache has no live entry for the key and the fetch
  succeeds (after at most two transient failures) with no records, or with records that
  make an empty frame, the load returns absent and stores nothing: the cache is the one
  before the call with the key's expired entry, if it had one, discarded by the lookup,
  and unchanged when the key had no entry. A later load of the key, on that cache, asks
  the sheet again.
\<close>

theorem C10_empty_result_not_cached:
  assumes key: "cache_key loc_name booth_name = Inr key"
      and sp: "spreadsheet e = Some sp"
      and miss: "fst (DataCache_get (data_cache w) key (clock w)) = None"
      and empty: "\<exists>k<3. (\<forall>i<k. sp key (length (requests w) + i) = APIError) \<and>
                     sp key (length (requests w) + k) = Records data \<and> df_empty data"
  shows "\<exists>w'. load_sensor_data e loc_name booth_name w = Inr (None, w') \<and>
           data_cache w' = (data_cache w)\<lparr>cache := (cache (data_cache w))(key := None)\<rparr> \<and>
           (cache (data_cache w) key = None \<longrightarrow> data_cache w' = data_cache w) \<and>
           (\<forall>w''. data_cache w'' = data_cache w' \<longrightarrow>
              (\<exists>r w3 rest. load_sensor_data e loc_name booth_name w'' = Inr (r, w3) \<and>
                  requests w3 = requests w'' @ key # rest))"
proof -
  let ?c1 = "(data_cache w)\<lparr>cache := (cache (data_cache w))(key := None)\<rparr>"
  let ?w1 = "w\<lparr>data_cache := ?c1\<rparr>"
  obtain r w2 where run: "retry_loop sp key 3 0 ?w1 = (r, w2)" by force
  from empty obtain k where k: "\<forall>i<k. sp key (length (requests w) + i) = APIError"
      "sp key (length (requests w) + k) = Records data" "df_empty data" by blast
  have r: "r = None \<or> r = Some data"
  proof (cases r)
    case None
    then show ?thesis by simp
  next
    case (Some d)
    with run have "retry_loop sp key 3 0 ?w1 = (Some d, w2)" by simp
    from retry_loop_Some [OF this] obtain i where
      i: "sp key (length (requests w) + i) = Records d"
         "\<forall>j<i. sp key (length (requests w) + j) = APIError"
      by auto
    consider "i < k" | "i = k" | "k < i" by linarith
    then have "d = data"
    proof cases
      case 1 with k(1) i(1) show ?thesis by simp
    next
      case 2 with k(2) i(1) show ?thesis by simp
    next
      case 3 with k(2) i(2) show ?thesis by simp
    qed
    with Some show ?thesis by simp
  qed
  have c2: "data_cache w2 = ?c1"
    using retry_loop_keeps [of sp key 3 0 ?w1] run by simp
  have idem: "cache (data_cache w) key = None \<Longrightarrow> ?c1 = data_cache w"
    by (simp add: fun_upd_idem)
  have load: "load_sensor_data e loc_name booth_name w = Inr (None, w2)"
    unfolding load_miss_connected [OF key sp miss] Let_def run
    using r k(3) by auto
  have again: "\<exists>r w3 rest. load_sensor_data e loc_name booth_name w'' = Inr (r, w3) \<and>
                  requests w3 = requests w'' @ key # rest"
    if "data_cache w'' = data_cache w2" for w''
  proof -
    from that c2 have "cache (data_cache w'') key = None" by simp
    then have "fst (DataCache_get (data_cache w'') key (clock w'')) = None"
      by (simp add: DataCache_get_absent)
    from load_miss_asks [OF key sp this] show ?thesis .
  qed
  from load c2 idem again show ?thesis by auto
qed

theorem C10_empty_result_not_cached_witness:
  "\<exists>w'. load_sensor_data (env0 (Some (\<lambda>k n. Records [])) [])
            (CStr ''Adelaide'') (CStr ''Booth A'') world0 = Inr (None, w') \<and>
         data_cache w' = data_cache world0 \<and>
         (\<exists>r w3 rest. load_sensor_data (env0 (Some (\<lambda>k n. Records [])) [])
              (CStr ''Adelaide'') (CStr ''Booth A'') w' = Inr (r, w3) \<and>
              requests w3 = requests w' @ ''Adelaide_BoothA'' # rest)"
proof -
  have miss: "fst (DataCache_get (data_cache world0) ''Adelaide_BoothA'' (clock world0)) = None"
    by (simp add: DataCache_get_def world0_def)
  have empty: "\<exists>k<3. (\<forall>i<k. (\<lambda>k n. Records []) ''Adelaide_BoothA''
                   (length (requests world0) + i) = APIError) \<and>
                 (\<lambda>k n. Records []) ''Adelaide_BoothA''
                   (length (requests world0) + k) = Records [] \<and> df_empty []"
    by (intro exI [of _ 0]) (simp add: df_empty_def)
  have sp: "spreadsheet (env0 (Some (\<lambda>k n. Records [])) []) = Some (\<lambda>k n. Records [])"
    by (simp add: env0_def)
  have none: "cache (data_cache world0) ''Adelaide_BoothA'' = None"
    by (simp add: world0_def)
  from C10_empty_result_not_cached [OF key_example sp miss empty] none show ?thesis
    by blast
qed

text \<open>
  The claim C10 as stated fails on an expired entry: the sheet answers with no records,
  the load returns absent, and the cache has lost the entry it had before the call.
\<close>

theorem C10_stale_entry_counterexample:
  "cache (data_cache world_stale) ''Adelaide_BoothA'' \<noteq> None \<and>
   load_sensor_data (env0 (Some (\<lambda>k n. Records [])) [])
       (CStr ''Adelaide'') (CStr ''Booth A'') world_stale =
     Inr (None, world_stale\<lparr>data_cache := \<lparr>cache = Map.empty, ttl = 120\<rparr>,
                            requests := [''Adelaide_BoothA'']\<rparr>) \<and>
   cache (data_cache (world_stale\<lparr>data_cache := \<lparr>cache = Map.empty, ttl = 120\<rparr>,
                            requests := [''Adelaide_BoothA'']\<rparr>)) ''Adelaide_BoothA'' = None"
  by (simp add: load_sensor_data_def key_example DataCache_get_def env0_def world0_def
        world_stale_def example_cache_def fetch_worksheet_with_retry_def retry_loop_records)

section \<open>Properties of the background refresh\<close>

lemma load_returns:
  assumes "cache_key l b = Inr key"
  shows "\<exists>r w'. load_sensor_data e l b w = Inr (r, w')"
  using assms
  by (simp add: load_sensor_data_def Let_def split: prod.splits option.splits)

lemma refresh_loop_step:
  assumes "load_sensor_data e (location row) (booth row) w = Inr (r, w1)"
  shows "fst (refresh_loop e (row # rest) w) =
           row # fst (refresh_loop e rest (time_sleep (1 / 2) w1))"
    and "fst (snd (refresh_loop e (row # rest) w)) =
           fst (snd (refresh_loop e rest (time_sleep (1 / 2) w1)))"
  using assms by (simp_all split: prod.splits)

lemma refresh_loop_called:
  "fst (refresh_loop e roster w) =
     takeWhile (\<lambda>row. \<not> load_raises row) roster @
     take 1 (dropWhile (\<lambda>row. \<not> load_raises row) roster)"
proof (induction roster arbitrary: w)
  case Nil
  show ?case by simp
next
  case (Cons row rest)
  show ?case
  proof (cases "cache_key (location row) (booth row)")
    case (Inl err)
    then have "load_raises row" by (simp add: load_raises_def)
    with Inl show ?thesis by (simp add: cache_key_error)
  next
    case (Inr key)
    then have ok: "\<not> load_raises row" by (simp add: load_raises_def)
    from load_returns [OF Inr, of e w] obtain r w1 where
      "load_sensor_data e (location row) (booth row) w = Inr (r, w1)" by blast
    from refresh_loop_step(1) [OF this] ok Cons.IH [of "time_sleep (1 / 2) w1"]
    show ?thesis by simp
  qed
qed

lemma refresh_loop_caught:
  "fst (snd (refresh_loop e roster w)) =
     (if list_ex load_raises roster then Some AttributeError else None)"
proof (induction roster arbitrary: w)
  case Nil
  show ?case by simp
next
  case (Cons row rest)
  show ?case
  proof (cases "cache_key (location row) (booth row)")
    case (Inl err)
    then have "load_raises row" by (simp add: load_raises_def)
    moreover have "err = AttributeError" by (cases err) simp
    ultimately show ?thesis using Inl by (simp add: cache_key_error)
  next
    case (Inr key)
    then have ok: "\<not> load_raises row" by (simp add: load_raises_def)
    from load_returns [OF Inr, of e w] obtain r w1 where
      "load_sensor_data e (location row) (booth row) w = Inr (r, w1)" by blast
    from refresh_loop_step(2) [OF this] ok Cons.IH [of "time_sleep (1 / 2) w1"]
    show ?thesis by simp
  qed
qed

lemma takeWhile_all: "\<not> list_ex P xs \<Longrightarrow> takeWhile (\<lambda>x. \<not> P x) xs = xs \<and> dropWhile (\<lambda>x. \<not> P x) xs = []"
  by (induction xs) auto

lemma load_raises_examples:
  "\<not> load_raises \<lparr>location = CStr l, booth = CStr b\<rparr>"
  "load_raises \<lparr>location = CStr l, booth = CNum x\<rparr>"
  by (simp_all add: load_raises_def cache_key_def str_replace_def)

text \<open>
  C5, as the code has it. One sweep calls \<open>load_sensor_data\<close> for the roster lines in
  order, up to and including the first line on which it raises; the exception is caught
  outside the loop and ends the sweep. Whatever the sheet answers, a load that returns
  (a frame or absent) never stops the sweep: when no line makes the load raise, every
  line of the roster is attempted and nothing is caught.
\<close>

theorem C5_sweep_until_exception:
  "fst (refresh_all_booths e w) =
     takeWhile (\<lambda>row. \<not> load_raises row) (df_clients e) @
     take 1 (dropWhile (\<lambda>row. \<not> load_raises row) (df_clients e)) \<and>
   fst (snd (refresh_all_booths e w)) =
     (if list_ex load_raises (df_clients e) then Some AttributeError else None) \<and>
   (\<not> list_ex load_raises (df_clients e) \<longrightarrow> fst (refresh_all_booths e w) = df_clients e)"
  by (simp add: refresh_all_booths_def refresh_loop_called refresh_loop_caught takeWhile_all)

theorem C5_sweep_until_exception_witness:
  "fst (refresh_all_booths (env0 (Some (\<lambda>k n. WorksheetNotFound)) roster_ok) world0) = roster_ok \<and>
   fst (snd (refresh_all_booths (env0 (Some (\<lambda>k n. WorksheetNotFound)) roster_ok) world0)) = None"
  using C5_sweep_until_exception [of "env0 (Some (\<lambda>k n. WorksheetNotFound)) roster_ok" world0]
  by (simp add: env0_def roster_ok_def load_raises_examples)

text \<open>
  The claim C5 as stated fails on a raised exception: with a roster whose first booth is
  a number, the load of the first line raises \<open>AttributeError\<close>, the sweep ends there,
  and the second line is never attempted (no request reaches the sheet).
\<close>

theorem C5_exception_counterexample:
  "refresh_all_booths (env0 (Some (\<lambda>k n. Records [one_row])) roster_numbered) world0 =
     ([\<lparr>location = CStr ''Adelaide'', booth = CNum 1\<rparr>], Some AttributeError, world0) \<and>
   length roster_numbered = 2 \<and>
   requests world0 = []"
  by (simp add: refresh_all_booths_def env0_def roster_numbered_def load_sensor_data_def
        cache_key_def str_replace_def world0_def)

section \<open>Properties of the normalisation\<close>

lemma non_nans_eq:
  "map (\<lambda>i. the (items ! i)) (filter (\<lambda>i. items ! i \<noteq> None) [0..<length items]) =
   map the (filter (\<lambda>t. t \<noteq> None) items)"
proof -
  have "filter (\<lambda>t. t \<noteq> None) items =
          filter (\<lambda>t. t \<noteq> None) (map (\<lambda>i. items ! i) [0..<length items])"
    by (simp add: map_nth)
  also have "\<dots> = map (\<lambda>i. items ! i) (filter (\<lambda>i. items ! i \<noteq> None) [0..<length items])"
    by (simp add: filter_map comp_def)
  finally show ?thesis by (simp add: comp_def)
qed

lemma filter_by_index:
  "filter P xs = map (\<lambda>i. xs ! i) (filter (\<lambda>i. P (xs ! i)) [0..<length xs])"
proof -
  have "filter P xs = filter P (map (\<lambda>i. xs ! i) [0..<length xs])"
    by (simp add: map_nth)
  also have "\<dots> = map (\<lambda>i. xs ! i) (filter (\<lambda>i. P (xs ! i)) [0..<length xs])"
    by (simp add: filter_map comp_def)
  finally show ?thesis .
qed

lemma mset_filter_split:
  "mset (filter P xs) + mset (filter (\<lambda>x. \<not> P x) xs) = mset xs"
  by (induction xs) auto

lemma sort_values_props:
  assumes srt: "argsort_sorts f (map the (filter (\<lambda>t. t \<noteq> None) (map timestamp df)))"
  shows "mset (sort_values f df) = mset df"
    and "\<exists>ds n. map timestamp (sort_values f df) = map Some ds @ replicate n None \<and> sorted ds"
    and "filter (\<lambda>r. timestamp r = None) (sort_values f df) =
         filter (\<lambda>r. timestamp r = None) df"
proof -
  define items where "items = map timestamp df"
  define nn_idx where "nn_idx = filter (\<lambda>i. items ! i \<noteq> None) [0..<length items]"
  define nan_idx where "nan_idx = filter (\<lambda>i. items ! i = None) [0..<length items]"
  define nn where "nn = map (\<lambda>i. the (items ! i)) nn_idx"
  define order where "order = map (\<lambda>j. nn_idx ! j) (f nn)"
  have len: "length items = length df" by (simp add: items_def)
  have nn: "nn = map the (filter (\<lambda>t. t \<noteq> None) (map timestamp df))"
    unfolding nn_def nn_idx_def items_def by (rule non_nans_eq)
  from srt nn have perm: "mset (f nn) = mset [0..<length nn]"
    and sorted: "sorted (map (\<lambda>i. nn ! i) (f nn))"
    by (simp_all add: argsort_sorts_def)
  have lnn: "length nn = length nn_idx" by (simp add: nn_def)
  have sv: "sort_values f df = map (\<lambda>i. df ! i) (order @ nan_idx)"
    by (simp add: sort_values_def nargsort_def Let_def items_def nn_idx_def nan_idx_def
          nn_def order_def)
  have in_f: "j < length nn_idx" if "j \<in> set (f nn)" for j
  proof -
    from that have "j \<in># mset (f nn)" by simp
    with perm lnn show ?thesis by simp
  qed
  have nn_idx_props: "i < length df \<and> items ! i \<noteq> None" if "i \<in> set nn_idx" for i
    using that len by (auto simp: nn_idx_def)
  have nan_idx_props: "i < length df \<and> items ! i = None" if "i \<in> set nan_idx" for i
    using that len by (auto simp: nan_idx_def)
  have ts: "timestamp (df ! i) = items ! i" if "i < length df" for i
    using that by (simp add: items_def)
  \<comment> \<open>the rows are a permutation\<close>
  have "mset order = image_mset (\<lambda>j. nn_idx ! j) (mset (f nn))"
    by (simp add: order_def)
  also have "\<dots> = mset (map (\<lambda>j. nn_idx ! j) [0..<length nn_idx])"
    by (simp add: perm lnn)
  also have "\<dots> = mset nn_idx" by (simp add: map_nth)
  finally have mo: "mset order = mset nn_idx" .
  have "mset nn_idx + mset nan_idx = mset [0..<length items]"
  proof -
    have "(\<lambda>i. items ! i = None) = (\<lambda>i. \<not> items ! i \<noteq> None)" by simp
    then show ?thesis
      unfolding nn_idx_def nan_idx_def by (simp only: mset_filter_split)
  qed
  with mo have "mset (order @ nan_idx) = mset [0..<length df]"
    by (simp only: mset_append len)
  then have "image_mset (\<lambda>i. df ! i) (mset (order @ nan_idx)) =
             image_mset (\<lambda>i. df ! i) (mset [0..<length df])"
    by (rule arg_cong)
  then have "mset (map (\<lambda>i. df ! i) (order @ nan_idx)) = mset (map (\<lambda>i. df ! i) [0..<length df])"
    by (simp only: mset_map)
  then show "mset (sort_values f df) = mset df" by (simp only: sv map_nth)
  \<comment> \<open>the keys\<close>
  have key_order: "timestamp (df ! (nn_idx ! j)) = Some (nn ! j)" if "j \<in> set (f nn)" for j
  proof -
    from in_f [OF that] have j: "j < length nn_idx" .
    then have "nn_idx ! j \<in> set nn_idx" by simp
    from nn_idx_props [OF this] ts have "timestamp (df ! (nn_idx ! j)) \<noteq> None" by simp
    moreover from j have "nn ! j = the (items ! (nn_idx ! j))" by (simp add: nn_def)
    moreover from nn_idx_props [OF \<open>nn_idx ! j \<in> set nn_idx\<close>] ts
    have "timestamp (df ! (nn_idx ! j)) = items ! (nn_idx ! j)" by simp
    ultimately show ?thesis by auto
  qed
  have t_order: "map timestamp (map (\<lambda>i. df ! i) order) = map Some (map (\<lambda>j. nn ! j) (f nn))"
    using key_order by (simp add: order_def)
  have t_nan: "map timestamp (map (\<lambda>i. df ! i) nan_idx) = replicate (length nan_idx) None"
  proof -
    have "timestamp (df ! i) = None" if "i \<in> set nan_idx" for i
      using nan_idx_props [OF that] ts by simp
    then show ?thesis by (simp add: map_replicate_const [symmetric])
  qed
  have "map timestamp (sort_values f df) =
          map Some (map (\<lambda>j. nn ! j) (f nn)) @ replicate (length nan_idx) None"
    using t_order t_nan by (simp add: sv)
  with sorted show "\<exists>ds n. map timestamp (sort_values f df) = map Some ds @ replicate n None \<and> sorted ds"
    by blast
  \<comment> \<open>the rows without a key stay in arrival order\<close>
  have f1: "filter (\<lambda>r. timestamp r = None) (map (\<lambda>i. df ! i) order) = []"
  proof -
    have "timestamp r \<noteq> None" if "r \<in> set (map (\<lambda>i. df ! i) order)" for r
    proof -
      from that obtain j where "j \<in> set (f nn)" "r = df ! (nn_idx ! j)"
        by (auto simp: order_def)
      with key_order show ?thesis by simp
    qed
    then show ?thesis by (simp add: filter_empty_conv)
  qed
  have f2: "filter (\<lambda>r. timestamp r = None) (map (\<lambda>i. df ! i) nan_idx) = map (\<lambda>i. df ! i) nan_idx"
  proof -
    have "timestamp r = None" if "r \<in> set (map (\<lambda>i. df ! i) nan_idx)" for r
    proof -
      from that obtain i where i: "i \<in> set nan_idx" "r = df ! i" by auto
      from nan_idx_props [OF i(1)] have "i < length df" "items ! i = None" by simp_all
      with ts [of i] i(2) show ?thesis by simp
    qed
    then have "\<forall>r\<in>set (map (\<lambda>i. df ! i) nan_idx). timestamp r = None" by blast
    then show ?thesis by (simp only: filter_id_conv)
  qed
  have "filter (\<lambda>i. timestamp (df ! i) = None) [0..<length df] = nan_idx"
    unfolding nan_idx_def len by (rule filter_cong) (simp_all add: ts)
  then have "filter (\<lambda>r. timestamp r = None) df = map (\<lambda>i. df ! i) nan_idx"
    using filter_by_index [of "\<lambda>r. timestamp r = None" df] by simp
  with f1 f2 show "filter (\<lambda>r. timestamp r = None) (sort_values f df) =
         filter (\<lambda>r. timestamp r = None) df"
    by (simp add: sv)
qed

lemma timestamp_to_reading [simp]: "timestamp (to_reading lib r t) = t"
  by (simp add: to_reading_def)

lemma typed_frame_timestamps:
  assumes "length (to_datetime lib (map (\<lambda>r. map_of r ''timestamp'') data)) = length data"
  shows "map timestamp (typed_frame lib data) =
           to_datetime lib (map (\<lambda>r. map_of r ''timestamp'') data)"
    and "length (typed_frame lib data) = length data"
proof -
  let ?ts = "to_datetime lib (map (\<lambda>r. map_of r ''timestamp'') data)"
  have "map timestamp (typed_frame lib data) = map snd (zip data ?ts)"
    by (simp add: typed_frame_def split_def)
  also have "\<dots> = ?ts" using assms by (simp add: map_snd_zip)
  finally show "map timestamp (typed_frame lib data) = ?ts" .
  show "length (typed_frame lib data) = length data"
    using assms by (simp add: typed_frame_def)
qed

lemma stable_argsort_sorts: "argsort_sorts stable_argsort ks"
  by (simp add: argsort_sorts_def stable_argsort_def)

text \<open>
  Where \<open>to_datetime\<close> returns one instant or NaT for each row and the sort keeps its
  promise on the keys that are not NaT, the sorted frame is a permutation of the typed
  rows, as long as the input, with the timestamps ascending and the rows without a
  timestamp last, in their arrival order. The order between rows of equal timestamp is
  the library's: the source gives \<open>sort_values\<close> no \<open>kind\<close>, and nothing here fixes it.
\<close>

lemma normalize_sorted_undefined_last:
  assumes len: "length (to_datetime lib (map (\<lambda>r. map_of r ''timestamp'') data)) = length data"
      and srt: "argsort_sorts (argsort lib)
                  (map the (filter (\<lambda>t. t \<noteq> None)
                     (to_datetime lib (map (\<lambda>r. map_of r ''timestamp'') data))))"
  shows "mset (normalize lib data) = mset (typed_frame lib data) \<and>
         length (normalize lib data) = length data \<and>
         (\<exists>ds n. map timestamp (normalize lib data) = map Some ds @ replicate n None \<and>
                 sorted ds) \<and>
         filter (\<lambda>r. timestamp r = None) (normalize lib data) =
           filter (\<lambda>r. timestamp r = None) (typed_frame lib data)"
proof -
  from srt have srt': "argsort_sorts (argsort lib)
      (map the (filter (\<lambda>t. t \<noteq> None) (map timestamp (typed_frame lib data))))"
    by (simp only: typed_frame_timestamps(1) [OF len])
  note p = sort_values_props [OF srt']
  from p(1) have "mset (normalize lib data) = mset (typed_frame lib data)"
    by (simp only: normalize_def)
  moreover from this have "length (normalize lib data) = length data"
    using mset_eq_length typed_frame_timestamps(2) [OF len] by metis
  moreover from p(2) have "\<exists>ds n. map timestamp (normalize lib data) =
      map Some ds @ replicate n None \<and> sorted ds"
    by (simp only: normalize_def)
  moreover from p(3) have "filter (\<lambda>r. timestamp r = None) (normalize lib data) =
           filter (\<lambda>r. timestamp r = None) (typed_frame lib data)"
    by (simp only: normalize_def)
  ultimately show ?thesis by blast
qed

section \<open>Properties of the temporal utilisation\<close>

lemma strip_examples:
  "strip ''Occupied'' = ''Occupied''" "strip ''occupied '' = ''occupied''"
  "strip ''Vacant'' = ''Vacant''"
  by code_simp+

lemma title_examples:
  "title ''Occupied'' = ''Occupied''" "title ''occupied'' = ''Occupied''"
  "title ''Vacant'' \<noteq> ''Occupied''"
  by code_simp+

text \<open>
  C2, at the specification's own example. Four readings in range with the states
  \<open>Occupied\<close>, \<open>occupied \<close>, \<open>Vacant\<close>, \<open>Vacant\<close>: both handlers trim the state but
  compare it with \<open>Occupied\<close> as it is cased, and give 25 per cent where the claim, and
  the case-normalising test of the status panel, give 50.
\<close>

theorem C2_case_sensitive_at_example:
  "dashboard_temporal_utilization (dashboard_filter 0 100 four_readings) = 25 \<and>
   location_view_utilization None None four_readings = Some 25 \<and>
   temporalUtilization_spec 0 100 four_readings = 50"
proof (intro conjI)
  show "dashboard_temporal_utilization (dashboard_filter 0 100 four_readings) = 25"
    by (simp add: dashboard_temporal_utilization_def dashboard_filter_def four_readings_def
        no_fields_def dropna_pir_state_def occupied_rows_def is_occupied_def strip_examples)
  show "location_view_utilization None None four_readings = Some 25"
    by (simp add: location_view_utilization_def four_readings_def no_fields_def
        dropna_pir_state_def occupied_rows_def is_occupied_def strip_examples)
  show "temporalUtilization_spec 0 100 four_readings = 50"
    by (simp add: temporalUtilization_spec_def dashboard_filter_def four_readings_def
        no_fields_def dropna_pir_state_def is_occupied_title_def strip_examples title_examples)
qed

end
